theory Spec2Isabelle
  imports Complex_Main "HOL-Library.AList" "HOL-Library.Multiset"
    "HOL-Library.Product_Lexorder" "HOL-Library.Char_ord" "HOL-Library.List_Lexorder"
begin

section \<open>Response normalisation of the Alpha Vantage client: the decoders of package models\<close>

text \<open>
  The theory embeds the decoders of \<^verbatim>\<open>models/timeseries.go\<close> (the seven
  \<^verbatim>\<open>UnmarshalJSON\<close> methods of the time series and the one of \<^verbatim>\<open>Quote\<close>),
  \<^verbatim>\<open>models/indicators.go\<close> (\<^verbatim>\<open>UnmarshalIndicatorJSON\<close>, \<^verbatim>\<open>extractMetaData\<close>) and
  \<^verbatim>\<open>models/crypto.go\<close> (\<^verbatim>\<open>UnmarshalCryptoJSON\<close>, \<^verbatim>\<open>extractCryptoMetaData\<close>).
  The functions of the Go standard library that they call (\<^verbatim>\<open>strconv\<close>, \<^verbatim>\<open>time\<close>,
  \<^verbatim>\<open>encoding/json\<close>, \<^verbatim>\<open>sort\<close>, \<^verbatim>\<open>strings\<close>) are modelled first, each from its
  documented behaviour.
\<close>

subsection \<open>Values of the Go runtime\<close>

text \<open>
  A \<^verbatim>\<open>float64\<close> is modelled by the exact rational its decimal text denotes, or one of
  the three special values. The rounding to 53 bits of mantissa is left out: the model may
  tell apart two texts that Go reads as the same number; nothing below depends on it.
\<close>

datatype float64 = Finite rat | PosInf | NegInf | NaN

text \<open>
  A \<^verbatim>\<open>time.Time\<close> in UTC, by its calendar fields. \<^verbatim>\<open>time.Parse\<close> without a zone in the
  layout returns UTC times, the only ones the decoders make.
\<close>

record Time =
  Year :: nat
  Month :: nat
  Day :: nat
  Hour :: nat
  Minute :: nat
  Second :: nat
  Nanosecond :: nat

text \<open>The zero value \<^verbatim>\<open>time.Time{}\<close>: January 1, year 1, 00:00:00 UTC.\<close>

definition zero_Time :: Time where
  "zero_Time = \<lparr>Year = 1, Month = 1, Day = 1, Hour = 0, Minute = 0, Second = 0, Nanosecond = 0\<rparr>"

text \<open>
  \<^verbatim>\<open>t.Before(u)\<close> compares instants. For two UTC times given by calendar fields in range
  that is the lexicographic order of the fields.
\<close>

definition time_key :: "Time \<Rightarrow> nat \<times> nat \<times> nat \<times> nat \<times> nat \<times> nat \<times> nat" where
  "time_key t = (Year t, Month t, Day t, Hour t, Minute t, Second t, Nanosecond t)"

definition Before :: "Time \<Rightarrow> Time \<Rightarrow> bool" where
  "Before t u = (time_key t < time_key u)"

text \<open>
  The errors the decoders return and the run-time panics they can raise. \<^verbatim>\<open>Errorf\<close> is
  \<^verbatim>\<open>fmt.Errorf\<close> with a constant message, \<^verbatim>\<open>ErrorfV\<close> is \<^verbatim>\<open>fmt.Errorf(msg + "%v", err)\<close>.
\<close>

datatype error =
    SyntaxError
  | UnmarshalTypeError
  | ParseError
  | ErrSyntax
  | ErrRange
  | Errorf string
  | ErrorfV string error

datatype panic = TypeAssertion | NilDereference

text \<open>
  What a call does: it returns normally (\<open>Ok\<close>, the \<^verbatim>\<open>nil\<close> error, with the receiver as
  the call leaves it), it returns an error, or it panics. The receiver after an error or a
  panic is not modelled: every caller in package client drops it.
\<close>

datatype 'a result = Ok 'a | Error error | Panic panic

subsection \<open>strconv\<close>

definition isDigit :: "char \<Rightarrow> bool" where
  "isDigit c = (CHR ''0'' \<le> c \<and> c \<le> CHR ''9'')"

definition digit :: "char \<Rightarrow> nat" where
  "digit c = of_char c - of_char (CHR ''0'')"

definition digits_value :: "string \<Rightarrow> nat" where
  "digits_value ds = foldl (\<lambda>n c. 10 * n + digit c) 0 ds"

definition lower :: "char \<Rightarrow> char" where
  "lower c = (if CHR ''A'' \<le> c \<and> c \<le> CHR ''Z'' then char_of (of_char c + (32::nat)) else c)"

text \<open>An optional sign: the sign read (True for minus) and the rest.\<close>

fun read_sign :: "string \<Rightarrow> bool \<times> string" where
  "read_sign (c # cs) =
     (if c = CHR ''+'' then (False, cs) else if c = CHR ''-'' then (True, cs) else (False, c # cs))"
| "read_sign [] = (False, [])"

text \<open>
  \<^verbatim>\<open>readFloat\<close> of \<^verbatim>\<open>atof.go\<close> reads a number in three steps. The first is the loop over
  the mantissa, in base 10 or, after the prefix \<^verbatim>\<open>0x\<close>, in base 16: it skips underscores,
  takes at most one point and stops at the first other character. The model keeps the
  value of all the digits read and the number of them after the point, and whether a
  digit was seen.
\<close>

definition isHexLetter :: "char \<Rightarrow> bool" where
  "isHexLetter c = (CHR ''a'' \<le> lower c \<and> lower c \<le> CHR ''f'')"

definition hexLetter :: "char \<Rightarrow> nat" where
  "hexLetter c = of_char (lower c) - of_char (CHR ''a'') + 10"

fun readDigits ::
  "nat \<Rightarrow> string \<Rightarrow> bool \<Rightarrow> bool \<Rightarrow> nat \<Rightarrow> nat \<Rightarrow> nat \<times> nat \<times> bool \<times> string" where
  "readDigits base [] sawdot sawdigits mantissa fd = (mantissa, fd, sawdigits, [])"
| "readDigits base (c # cs) sawdot sawdigits mantissa fd =
     (if c = CHR ''_'' then readDigits base cs sawdot sawdigits mantissa fd
      else if c = CHR ''.'' then
        (if sawdot then (mantissa, fd, sawdigits, c # cs)
         else readDigits base cs True sawdigits mantissa fd)
      else if isDigit c then
        readDigits base cs sawdot True (base * mantissa + digit c) (if sawdot then fd + 1 else fd)
      else if base = 16 \<and> isHexLetter c then
        readDigits base cs sawdot True (16 * mantissa + hexLetter c) (if sawdot then fd + 1 else fd)
      else (mantissa, fd, sawdigits, c # cs))"

text \<open>
  The second step is the exponent: \<^verbatim>\<open>e\<close> or \<^verbatim>\<open>E\<close> in base 10, \<^verbatim>\<open>p\<close> or \<^verbatim>\<open>P\<close> in base 16
  where it is required, then an optional sign and a digit, followed by digits and
  underscores. The exponent stops growing once it has reached 10000.
\<close>

definition isExpDigit :: "char \<Rightarrow> bool" where
  "isExpDigit c = (isDigit c \<or> c = CHR ''_'')"

definition exponent_value :: "string \<Rightarrow> nat" where
  "exponent_value ds =
     foldl (\<lambda>e c. if c = CHR ''_'' then e else if e < 10000 then 10 * e + digit c else e) 0 ds"

definition readExponent :: "nat \<Rightarrow> string \<Rightarrow> (int \<times> string) option" where
  "readExponent base s =
     (case s of
        [] \<Rightarrow> if base = 16 then None else Some (0, [])
      | c # cs \<Rightarrow>
          if lower c = (if base = 16 then CHR ''p'' else CHR ''e'') then
            (case read_sign cs of
               (neg, ds) \<Rightarrow>
                 if ds = [] \<or> \<not> isDigit (hd ds) then None
                 else let e = int (exponent_value (takeWhile isExpDigit ds))
                      in Some (if neg then - e else e, dropWhile isExpDigit ds))
          else if base = 16 then None
          else Some (0, s))"

text \<open>
  The third step is \<^verbatim>\<open>underscoreOK\<close>, called on the text read when it holds an
  underscore: an underscore must stand between two digits, or between a base prefix and
  a digit. \<open>saw\<close> is the kind of the last character, as in the source.
\<close>

fun underscoreOK_from :: "bool \<Rightarrow> char \<Rightarrow> string \<Rightarrow> bool" where
  "underscoreOK_from hex saw [] = (saw \<noteq> CHR ''_'')"
| "underscoreOK_from hex saw (c # cs) =
     (if isDigit c \<or> (hex \<and> isHexLetter c) then underscoreOK_from hex (CHR ''0'') cs
      else if c = CHR ''_'' then saw = CHR ''0'' \<and> underscoreOK_from hex (CHR ''_'') cs
      else saw \<noteq> CHR ''_'' \<and> underscoreOK_from hex (CHR ''!'') cs)"

definition underscoreOK :: "string \<Rightarrow> bool" where
  "underscoreOK s =
     (case snd (read_sign s) of
        a # b # r \<Rightarrow>
          if a = CHR ''0'' \<and> (lower b = CHR ''b'' \<or> lower b = CHR ''o'' \<or> lower b = CHR ''x'')
          then underscoreOK_from (lower b = CHR ''x'') (CHR ''0'') r
          else underscoreOK_from False (CHR ''^'') (a # b # r)
      | s1 \<Rightarrow> underscoreOK_from False (CHR ''^'') s1)"

text \<open>
  \<^verbatim>\<open>readFloat\<close>: the number at the start of a text and what follows it, or \<open>None\<close> when
  there is no number there. The prefix \<^verbatim>\<open>0x\<close> counts only with a character after it.
  The number is the rational the text denotes: the mantissa times a power of 10, or
  times a power of 2 for a hexadecimal mantissa. A \<^verbatim>\<open>float64\<close> holds the nearest value
  it can represent; the model keeps the rational and does not round it.
\<close>

definition hex_prefix :: "string \<Rightarrow> bool" where
  "hex_prefix s = (case s of a # b # c # r \<Rightarrow> a = CHR ''0'' \<and> lower b = CHR ''x'' | _ \<Rightarrow> False)"

definition scale :: "rat \<Rightarrow> rat \<Rightarrow> int \<Rightarrow> rat" where
  "scale m b x = (if 0 \<le> x then m * b ^ nat x else m / b ^ nat (- x))"

definition readFloat :: "string \<Rightarrow> (rat \<times> string) option" where
  "readFloat s =
     (case read_sign s of
        (neg, s1) \<Rightarrow>
          let hex = hex_prefix s1;
              base = (if hex then 16 else 10)
          in (case readDigits base (if hex then drop 2 s1 else s1) False False 0 0 of
                (mantissa, fd, sawdigits, s2) \<Rightarrow>
                  if \<not> sawdigits then None
                  else (case readExponent base s2 of
                          None \<Rightarrow> None
                        | Some (e, s3) \<Rightarrow>
                            let read = take (length s - length s3) s in
                            if CHR ''_'' \<in> set read \<and> \<not> underscoreOK read then None
                            else let v = (if hex then scale (of_nat mantissa) 2 (e - 4 * int fd)
                                          else scale (of_nat mantissa) 10 (e - int fd))
                                 in Some (if neg then - v else v, s3))))"

text \<open>
  The special values: \<^verbatim>\<open>inf\<close> and \<^verbatim>\<open>infinity\<close> with an optional sign, \<^verbatim>\<open>nan\<close> without
  one, in any case of the letters.
\<close>

definition special :: "string \<Rightarrow> float64 option" where
  "special s =
     (if map lower s = ''nan'' then Some NaN
      else case read_sign s of
        (neg, r) \<Rightarrow>
          if map lower r = ''inf'' \<or> map lower r = ''infinity''
          then Some (if neg then NegInf else PosInf)
          else None)"

text \<open>
  \<^verbatim>\<open>strconv.ParseFloat(s, 64)\<close> returns a value together with its error: 0 and
  \<^verbatim>\<open>ErrSyntax\<close> for a text that is not a number, or that goes on after the number; plus
  or minus infinity and \<^verbatim>\<open>ErrRange\<close> for a number that rounds beyond the largest
  \<^verbatim>\<open>float64\<close>, which are the numbers from \<open>float64_overflow\<close> on.
\<close>

definition float64_overflow :: rat where
  "float64_overflow = 2 ^ 1024 - 2 ^ 970"

definition ParseFloat :: "string \<Rightarrow> float64 \<times> error option" where
  "ParseFloat s =
     (case special s of
        Some v \<Rightarrow> (v, None)
      | None \<Rightarrow>
          (case readFloat s of
             None \<Rightarrow> (Finite 0, Some ErrSyntax)
           | Some (q, rest) \<Rightarrow>
               if rest \<noteq> [] then (Finite 0, Some ErrSyntax)
               else if float64_overflow \<le> q then (PosInf, Some ErrRange)
               else if q \<le> - float64_overflow then (NegInf, Some ErrRange)
               else (Finite q, None)))"

text \<open>
  \<^verbatim>\<open>strconv.ParseInt(s, 10, 64)\<close>: an optional sign and at least one decimal digit; a
  value outside the 64-bit range comes back clamped, with \<^verbatim>\<open>ErrRange\<close>.
\<close>

definition ParseInt :: "string \<Rightarrow> int \<times> error option" where
  "ParseInt s =
     (case read_sign s of
        (neg, ds) \<Rightarrow>
          if ds = [] \<or> \<not> list_all isDigit ds then (0, Some ErrSyntax)
          else let n = int (digits_value ds) in
            if neg then (if 2 ^ 63 < n then (- (2 ^ 63), Some ErrRange) else (- n, None))
            else (if 2 ^ 63 \<le> n then (2 ^ 63 - 1, Some ErrRange) else (n, None)))"

subsection \<open>time.Parse\<close>

text \<open>
  \<^verbatim>\<open>getnum\<close> of package time reads one or two digits; with \<open>fixed\<close> it insists on two.
\<close>

fun getnum :: "string \<Rightarrow> bool \<Rightarrow> (nat \<times> string) option" where
  "getnum (a # b # s) fixed =
     (if \<not> isDigit a then None
      else if \<not> isDigit b then (if fixed then None else Some (digit a, b # s))
      else Some (digit a * 10 + digit b, s))"
| "getnum [a] fixed =
     (if \<not> isDigit a then None else if fixed then None else Some (digit a, []))"
| "getnum [] fixed = None"

text \<open>The four-digit year of the layout element \<^verbatim>\<open>2006\<close>.\<close>

definition getyear :: "string \<Rightarrow> (nat \<times> string) option" where
  "getyear s =
     (if length s < 4 \<or> \<not> list_all isDigit (take 4 s) then None
      else Some (digits_value (take 4 s), drop 4 s))"

text \<open>\<^verbatim>\<open>skip\<close> for a one-character literal of the layout other than a space.\<close>

fun skip_char :: "char \<Rightarrow> string \<Rightarrow> string option" where
  "skip_char c (d # s) = (if c = d then Some s else None)"
| "skip_char c [] = None"

text \<open>
  \<^verbatim>\<open>skip\<close> for a space of the layout: a value that goes on with another character is
  refused, and a run of spaces counts as one.
\<close>

definition skip_space :: "string \<Rightarrow> string option" where
  "skip_space s =
     (case s of
        [] \<Rightarrow> Some []
      | c # cs \<Rightarrow> if c \<noteq> CHR '' '' then None else Some (dropWhile (\<lambda>d. d = CHR '' '') s))"

definition isLeap :: "nat \<Rightarrow> bool" where
  "isLeap y = (y mod 4 = 0 \<and> (y mod 100 \<noteq> 0 \<or> y mod 400 = 0))"

definition daysIn :: "nat \<Rightarrow> nat \<Rightarrow> nat" where
  "daysIn m y =
     (if m = 2 then (if isLeap y then 29 else 28)
      else if m = 4 \<or> m = 6 \<or> m = 9 \<or> m = 11 then 30 else 31)"

text \<open>
  The date part \<^verbatim>\<open>2006-01-02\<close> of the three layouts: the year, the month and the day
  read, and the rest of the value. The month is checked when it is read; the day is
  checked against the month at the end of \<^verbatim>\<open>Parse\<close>, which fails all the same.
\<close>

definition parse_ymd :: "string \<Rightarrow> ((nat \<times> nat \<times> nat) \<times> string) option" where
  "parse_ymd s =
     (case getyear s of None \<Rightarrow> None | Some (y, s1) \<Rightarrow>
      case skip_char (CHR ''-'') s1 of None \<Rightarrow> None | Some s2 \<Rightarrow>
      case getnum s2 True of None \<Rightarrow> None | Some (m, s3) \<Rightarrow>
      if m = 0 \<or> 12 < m then None else
      case skip_char (CHR ''-'') s3 of None \<Rightarrow> None | Some s4 \<Rightarrow>
      case getnum s4 True of None \<Rightarrow> None | Some (d, s5) \<Rightarrow>
      if d < 1 \<or> daysIn m y < d then None else Some ((y, m, d), s5))"

text \<open>\<^verbatim>\<open>time.Parse("2006-01-02", s)\<close>.\<close>

definition Parse_date :: "string \<Rightarrow> Time option" where
  "Parse_date s =
     (case parse_ymd s of
        None \<Rightarrow> None
      | Some ((y, m, d), r) \<Rightarrow>
          if r = []
          then Some \<lparr>Year = y, Month = m, Day = d, Hour = 0, Minute = 0, Second = 0, Nanosecond = 0\<rparr>
          else None)"

text \<open>
  The hour and minute \<^verbatim>\<open>15:04\<close> after the space of the layout: the hour of one or two
  digits, the minute of two.
\<close>

definition parse_hm :: "string \<Rightarrow> ((nat \<times> nat) \<times> string) option" where
  "parse_hm s =
     (case skip_space s of None \<Rightarrow> None | Some s1 \<Rightarrow>
      case getnum s1 False of None \<Rightarrow> None | Some (h, s2) \<Rightarrow>
      if 24 \<le> h then None else
      case skip_char (CHR '':'') s2 of None \<Rightarrow> None | Some s3 \<Rightarrow>
      case getnum s3 True of None \<Rightarrow> None | Some (mi, s4) \<Rightarrow>
      if 60 \<le> mi then None else Some ((h, mi), s4))"

text \<open>\<^verbatim>\<open>time.Parse("2006-01-02 15:04", s)\<close>, the layout of the indicator decoder.\<close>

definition Parse_minute :: "string \<Rightarrow> Time option" where
  "Parse_minute s =
     (case parse_ymd s of None \<Rightarrow> None | Some ((y, m, d), s1) \<Rightarrow>
      case parse_hm s1 of None \<Rightarrow> None | Some ((h, mi), r) \<Rightarrow>
      if r = []
      then Some \<lparr>Year = y, Month = m, Day = d, Hour = h, Minute = mi, Second = 0, Nanosecond = 0\<rparr>
      else None)"

text \<open>
  A fraction of a second in the value where the layout has none, which \<^verbatim>\<open>Parse\<close> accepts
  after the seconds: a point or a comma and digits, of which the first nine count.
\<close>

definition parse_fraction :: "string \<Rightarrow> nat \<times> string" where
  "parse_fraction s =
     (case s of
        c # d # r \<Rightarrow>
          if (c = CHR ''.'' \<or> c = CHR '','') \<and> isDigit d then
            (let ds = takeWhile isDigit (d # r); ns = take 9 ds
             in (digits_value ns * 10 ^ (9 - length ns), dropWhile isDigit (d # r)))
          else (0, s)
      | _ \<Rightarrow> (0, s))"

text \<open>\<^verbatim>\<open>time.Parse("2006-01-02 15:04:05", s)\<close>, the layout of the intraday decoder.\<close>

definition Parse_second :: "string \<Rightarrow> Time option" where
  "Parse_second s =
     (case parse_ymd s of None \<Rightarrow> None | Some ((y, m, d), s1) \<Rightarrow>
      case parse_hm s1 of None \<Rightarrow> None | Some ((h, mi), s2) \<Rightarrow>
      case skip_char (CHR '':'') s2 of None \<Rightarrow> None | Some s3 \<Rightarrow>
      case getnum s3 True of None \<Rightarrow> None | Some (sec, s4) \<Rightarrow>
      if 60 \<le> sec then None else
      case parse_fraction s4 of (ns, r) \<Rightarrow>
      if r = []
      then Some \<lparr>Year = y, Month = m, Day = d, Hour = h, Minute = mi, Second = sec, Nanosecond = ns\<rparr>
      else None)"

subsection \<open>Maps, and JSON documents\<close>

text \<open>
  A JSON document, as the bytes of a payload spell it: the members of an object in the
  order of the text, a name possibly more than once. A payload is the document its bytes
  denote, or \<open>None\<close> when they are not JSON text at all.
\<close>

datatype json =
    JNull
  | JBool bool
  | JNumber rat
  | JString string
  | JArray "json list"
  | JObject "(string \<times> json) list"

type_synonym bytes = "json option"

text \<open>
  A Go map is the list of its entries, the keys pairwise distinct. \<open>go_map\<close> stores the
  members of an object one after the other, a later value replacing an earlier one under
  the same key. The \<^verbatim>\<open>range\<close> statement visits the entries of a map in an order the
  runtime chooses; in the model it visits the list from left to right. Every order of
  visit is the left-to-right order of some document, so a statement about all payloads is
  a statement about all orders.
\<close>

definition go_map :: "(string \<times> 'a) list \<Rightarrow> (string \<times> 'a) list" where
  "go_map kvs = foldl (\<lambda>m kv. AList.update (fst kv) (snd kv) m) [] kvs"

text \<open>
  The value \<^verbatim>\<open>json.Unmarshal\<close> stores into an \<^verbatim>\<open>interface{}\<close>: the document with every
  object turned into a map.
\<close>

primrec to_interface :: "json \<Rightarrow> json" where
  "to_interface JNull = JNull"
| "to_interface (JBool b) = JBool b"
| "to_interface (JNumber x) = JNumber x"
| "to_interface (JString s) = JString s"
| "to_interface (JArray xs) = JArray (map to_interface xs)"
| "to_interface (JObject kvs) = JObject (go_map (map (map_prod id to_interface) kvs))"

text \<open>
  The numbers of a document. \<^verbatim>\<open>encoding/json\<close> reads a number it has to store as a
  \<^verbatim>\<open>float64\<close> with \<^verbatim>\<open>strconv.ParseFloat\<close>, and reports an \<^verbatim>\<open>UnmarshalTypeError\<close> when the
  number is out of range.
\<close>

primrec numbers :: "json \<Rightarrow> rat list" where
  "numbers JNull = []"
| "numbers (JBool b) = []"
| "numbers (JNumber x) = [x]"
| "numbers (JString s) = []"
| "numbers (JArray xs) = concat (map numbers xs)"
| "numbers (JObject kvs) = concat (map snd (map (map_prod id numbers) kvs))"

definition in_float64 :: "rat \<Rightarrow> bool" where
  "in_float64 x = (- float64_overflow < x \<and> x < float64_overflow)"

text \<open>
  \<^verbatim>\<open>json.Unmarshal(data, &raw)\<close> for \<^verbatim>\<open>var raw map[string]interface{}\<close>: the literal
  \<^verbatim>\<open>null\<close> leaves the map nil, which reads as the empty map. Every value of the object
  is stored, so every number of the document has to be in range.
\<close>

definition Unmarshal_raw :: "bytes \<Rightarrow> error + (string \<times> json) list" where
  "Unmarshal_raw data =
     (case data of
        None \<Rightarrow> Inl SyntaxError
      | Some JNull \<Rightarrow> Inr []
      | Some (JObject kvs) \<Rightarrow>
          if list_all in_float64 (numbers (JObject kvs))
          then Inr (go_map (map (map_prod id to_interface) kvs))
          else Inl UnmarshalTypeError
      | Some _ \<Rightarrow> Inl UnmarshalTypeError)"

text \<open>
  Names of struct fields: \<^verbatim>\<open>encoding/json\<close> takes the field whose name is the key, or
  else the one whose name is the key when the case of the letters is ignored (the long s,
  U+017F, and the Kelvin sign, U+212A, count as the letters s and k).
\<close>

definition upper :: "char \<Rightarrow> char" where
  "upper c = (if CHR ''a'' \<le> c \<and> c \<le> CHR ''z'' then char_of (of_char c - (32::nat)) else c)"

fun foldName :: "string \<Rightarrow> string" where
  "foldName (a # b # c # s) =
     (if a = CHR 0xE2 \<and> b = CHR 0x84 \<and> c = CHR 0xAA then CHR ''K'' # foldName s
      else if a = CHR 0xC5 \<and> b = CHR 0xBF then CHR ''S'' # foldName (c # s)
      else upper a # foldName (b # c # s))"
| "foldName [a, b] =
     (if a = CHR 0xC5 \<and> b = CHR 0xBF then [CHR ''S''] else [upper a, upper b])"
| "foldName [a] = [upper a]"
| "foldName [] = []"

definition field_eq :: "string \<Rightarrow> string \<Rightarrow> bool" where
  "field_eq key name = (key = name \<or> foldName key = foldName name)"

text \<open>
  Decoding an object into a struct: the members in the order of the text, each stored by
  \<open>field\<close> into the field its name selects (a member no field answers to is skipped).
  The literal \<^verbatim>\<open>null\<close> leaves the struct as it is; any other value is a type error.
\<close>

fun decode_object ::
  "(string \<Rightarrow> json \<Rightarrow> 's \<Rightarrow> error + 's) \<Rightarrow> (string \<times> json) list \<Rightarrow> 's \<Rightarrow> error + 's" where
  "decode_object field [] s = Inr s"
| "decode_object field ((k, v) # kvs) s =
     (case field k v s of Inl e \<Rightarrow> Inl e | Inr s' \<Rightarrow> decode_object field kvs s')"

definition decode_struct ::
  "(string \<Rightarrow> json \<Rightarrow> 's \<Rightarrow> error + 's) \<Rightarrow> json \<Rightarrow> 's \<Rightarrow> error + 's" where
  "decode_struct field v s =
     (case v of
        JNull \<Rightarrow> Inr s
      | JObject kvs \<Rightarrow> decode_object field kvs s
      | _ \<Rightarrow> Inl UnmarshalTypeError)"

text \<open>
  A field of type \<^verbatim>\<open>string\<close>, and one of type \<^verbatim>\<open>float64\<close>, which takes a number in
  range.
\<close>

definition decode_string :: "json \<Rightarrow> string \<Rightarrow> error + string" where
  "decode_string v cur =
     (case v of JString s \<Rightarrow> Inr s | JNull \<Rightarrow> Inr cur | _ \<Rightarrow> Inl UnmarshalTypeError)"

definition decode_float64 :: "json \<Rightarrow> float64 \<Rightarrow> error + float64" where
  "decode_float64 v cur =
     (case v of
        JNumber x \<Rightarrow> if in_float64 x then Inr (Finite x) else Inl UnmarshalTypeError
      | JNull \<Rightarrow> Inr cur
      | _ \<Rightarrow> Inl UnmarshalTypeError)"

text \<open>
  A numeric field with the option \<^verbatim>\<open>,string\<close> in its tag: the value is a JSON string
  that holds a number, which starts with a digit or a minus sign and is then read by
  \<^verbatim>\<open>strconv\<close>. The literal \<^verbatim>\<open>null\<close>, bare or in the string, leaves the field as it is.
\<close>

definition quoted_number :: "string \<Rightarrow> bool" where
  "quoted_number s = (case s of [] \<Rightarrow> False | c # cs \<Rightarrow> c = CHR ''-'' \<or> isDigit c)"

definition decode_float64_string :: "json \<Rightarrow> float64 \<Rightarrow> error + float64" where
  "decode_float64_string v cur =
     (case v of
        JNull \<Rightarrow> Inr cur
      | JString s \<Rightarrow>
          if s = ''null'' then Inr cur
          else if \<not> quoted_number s then Inl UnmarshalTypeError
          else (case ParseFloat s of
                  (x, None) \<Rightarrow> Inr x
                | (x, Some e) \<Rightarrow> Inl UnmarshalTypeError)
      | _ \<Rightarrow> Inl UnmarshalTypeError)"

definition decode_int_string :: "json \<Rightarrow> int \<Rightarrow> error + int" where
  "decode_int_string v cur =
     (case v of
        JNull \<Rightarrow> Inr cur
      | JString s \<Rightarrow>
          if s = ''null'' then Inr cur
          else if \<not> quoted_number s then Inl UnmarshalTypeError
          else (case ParseInt s of
                  (n, None) \<Rightarrow> Inr n
                | (n, Some e) \<Rightarrow> Inl UnmarshalTypeError)
      | _ \<Rightarrow> Inl UnmarshalTypeError)"

text \<open>
  Decoding an object into a map with struct values: each member is decoded into a fresh
  element, from its zero value, and stored under its name.
\<close>

fun decode_map ::
  "(json \<Rightarrow> 'e \<Rightarrow> error + 'e) \<Rightarrow> 'e \<Rightarrow> (string \<times> json) list \<Rightarrow> (string \<times> 'e) list
     \<Rightarrow> error + (string \<times> 'e) list" where
  "decode_map elem zero [] m = Inr m"
| "decode_map elem zero ((k, v) # kvs) m =
     (case elem v zero of
        Inl e \<Rightarrow> Inl e
      | Inr x \<Rightarrow> decode_map elem zero kvs (AList.update k x m))"

text \<open>
  \<^verbatim>\<open>json.Marshal\<close> of a value that \<^verbatim>\<open>json.Unmarshal\<close> stored in an \<^verbatim>\<open>interface{}\<close>
  cannot fail; it writes the entries of a map sorted by key.
\<close>

definition Marshal :: "json \<Rightarrow> json" where
  "Marshal v = (case v of JObject kvs \<Rightarrow> JObject (sort_key fst kvs) | _ \<Rightarrow> v)"

subsection \<open>sort and strings\<close>

text \<open>
  \<^verbatim>\<open>sort.SliceStable(x, less)\<close>. What a stable sort returns is fixed by the slice and by
  \<^verbatim>\<open>less\<close> (here \<open>lt\<close>), so any stable algorithm models it: here insertion from the right, each element
  put before the first one that is not less than it.
\<close>

fun insert_stable :: "('a \<Rightarrow> 'a \<Rightarrow> bool) \<Rightarrow> 'a \<Rightarrow> 'a list \<Rightarrow> 'a list" where
  "insert_stable lt x [] = [x]"
| "insert_stable lt x (y # ys) =
     (if lt y x then y # insert_stable lt x ys else x # y # ys)"

definition SliceStable :: "('a \<Rightarrow> 'a \<Rightarrow> bool) \<Rightarrow> 'a list \<Rightarrow> 'a list" where
  "SliceStable lt xs = foldr (insert_stable lt) xs []"

text \<open>\<^verbatim>\<open>strings.HasPrefix(s, prefix)\<close>.\<close>

definition HasPrefix :: "string \<Rightarrow> string \<Rightarrow> bool" where
  "HasPrefix s p = (take (length p) s = p)"

subsection \<open>The records of package models\<close>

record TimeSeriesMetaData =
  Information :: string
  Symbol :: string
  LastRefreshed :: string
  Interval :: string
  OutputSize :: string
  TimeZone :: string
  TimePeriod :: float64
  SeriesType :: string
  VolumeFactor :: string

record OHLCV =
  Timestamp :: Time
  Open :: float64
  High :: float64
  Low :: float64
  Close :: float64
  Volume :: int

text \<open>\<^verbatim>\<open>AdjustedOHLCV\<close> embeds \<^verbatim>\<open>OHLCV\<close>.\<close>

record AdjustedOHLCV = OHLCV +
  AdjustedClose :: float64
  Dividend :: float64

text \<open>
  The seven structs \<^verbatim>\<open>TimeSeriesIntraday\<close>, \<^verbatim>\<open>TimeSeriesDaily\<close>, ...,
  \<^verbatim>\<open>TimeSeriesMonthlyAdjusted\<close> have the same two fields and differ in the type of the
  elements of the second.
\<close>

record 'e TimeSeriesOf =
  MetaData :: TimeSeriesMetaData
  TimeSeries :: "'e list"

type_synonym TimeSeriesIntraday = "OHLCV TimeSeriesOf"
type_synonym TimeSeriesDaily = "OHLCV TimeSeriesOf"
type_synonym TimeSeriesDailyAdjusted = "AdjustedOHLCV TimeSeriesOf"
type_synonym TimeSeriesWeekly = "OHLCV TimeSeriesOf"
type_synonym TimeSeriesWeeklyAdjusted = "AdjustedOHLCV TimeSeriesOf"
type_synonym TimeSeriesMonthly = "OHLCV TimeSeriesOf"
type_synonym TimeSeriesMonthlyAdjusted = "AdjustedOHLCV TimeSeriesOf"


text \<open>\<^verbatim>\<open>Values\<close> is a \<^verbatim>\<open>map[string]float64\<close>.\<close>

record IndicatorValue =
  IV_Timestamp :: Time
  Values :: "(string \<times> float64) list"

record IndicatorResponse =
  I_MetaData :: TimeSeriesMetaData
  IndicatorValues :: "IndicatorValue list"

record CryptoMetaData =
  C_Information :: string
  DigitalCurrencyCode :: string
  DigitalCurrencyName :: string
  MarketCode :: string
  MarketName :: string
  C_LastRefreshed :: string
  C_TimeZone :: string

record CryptoTimeSeriesData =
  C_Timestamp :: Time
  C_Open :: float64
  C_High :: float64
  C_Low :: float64
  C_Close :: float64
  C_Volume :: float64
  MarketCap :: float64

record CryptoSeriesResponse =
  C_MetaData :: CryptoMetaData
  C_TimeSeries :: "CryptoTimeSeriesData list"
  IntervalLabel :: string

text \<open>The zero values that \<^verbatim>\<open>var\<close> declarations and fresh map elements start from.\<close>

definition zero_TimeSeriesMetaData :: TimeSeriesMetaData where
  "zero_TimeSeriesMetaData =
     \<lparr>Information = [], Symbol = [], LastRefreshed = [], Interval = [], OutputSize = [],
      TimeZone = [], TimePeriod = Finite 0, SeriesType = [], VolumeFactor = []\<rparr>"

definition zero_OHLCV :: OHLCV where
  "zero_OHLCV =
     \<lparr>Timestamp = zero_Time, Open = Finite 0, High = Finite 0, Low = Finite 0,
      Close = Finite 0, Volume = 0\<rparr>"

definition zero_AdjustedOHLCV :: AdjustedOHLCV where
  "zero_AdjustedOHLCV =
     \<lparr>Timestamp = zero_Time, Open = Finite 0, High = Finite 0, Low = Finite 0,
      Close = Finite 0, Volume = 0, AdjustedClose = Finite 0, Dividend = Finite 0\<rparr>"

definition zero_CryptoMetaData :: CryptoMetaData where
  "zero_CryptoMetaData =
     \<lparr>C_Information = [], DigitalCurrencyCode = [], DigitalCurrencyName = [],
      MarketCode = [], MarketName = [], C_LastRefreshed = [], C_TimeZone = []\<rparr>"

subsection \<open>Type assertions and sequencing\<close>

text \<open>
  \<^verbatim>\<open>x.(string)\<close> and \<^verbatim>\<open>x.(float64)\<close> in their one-result form panic unless \<open>x\<close> holds a
  value of that type. \<open>None\<close> is the \<^verbatim>\<open>nil\<close> that reading a missing key gives; a JSON
  \<^verbatim>\<open>null\<close> is stored as \<^verbatim>\<open>nil\<close> too.
\<close>

definition assert_string :: "json option \<Rightarrow> string result" where
  "assert_string x = (case x of Some (JString s) \<Rightarrow> Ok s | _ \<Rightarrow> Panic TypeAssertion)"

definition assert_float64 :: "json option \<Rightarrow> float64 result" where
  "assert_float64 x = (case x of Some (JNumber n) \<Rightarrow> Ok (Finite n) | _ \<Rightarrow> Panic TypeAssertion)"

text \<open>One statement after another: an error or a panic of the first ends the call.\<close>

definition and_then :: "'a result \<Rightarrow> ('a \<Rightarrow> 'b result) \<Rightarrow> 'b result" where
  "and_then r f = (case r of Ok x \<Rightarrow> f x | Error e \<Rightarrow> Error e | Panic p \<Rightarrow> Panic p)"

subsection \<open>The struct tags of timeseries.go\<close>

definition TimeSeriesMetaData_field ::
  "string \<Rightarrow> json \<Rightarrow> TimeSeriesMetaData \<Rightarrow> error + TimeSeriesMetaData" where
  "TimeSeriesMetaData_field k v md =
     (if field_eq k ''1. Information'' then
        map_sum id (\<lambda>x. md\<lparr>Information := x\<rparr>) (decode_string v (Information md))
      else if field_eq k ''2. Symbol'' then
        map_sum id (\<lambda>x. md\<lparr>Symbol := x\<rparr>) (decode_string v (Symbol md))
      else if field_eq k ''3. Last Refreshed'' then
        map_sum id (\<lambda>x. md\<lparr>LastRefreshed := x\<rparr>) (decode_string v (LastRefreshed md))
      else if field_eq k ''4. Interval'' then
        map_sum id (\<lambda>x. md\<lparr>Interval := x\<rparr>) (decode_string v (Interval md))
      else if field_eq k ''5. Output Size'' then
        map_sum id (\<lambda>x. md\<lparr>OutputSize := x\<rparr>) (decode_string v (OutputSize md))
      else if field_eq k ''6. Time Zone'' then
        map_sum id (\<lambda>x. md\<lparr>TimeZone := x\<rparr>) (decode_string v (TimeZone md))
      else if field_eq k ''5. Time Period'' then
        map_sum id (\<lambda>x. md\<lparr>TimePeriod := x\<rparr>) (decode_float64 v (TimePeriod md))
      else if field_eq k ''6. Series Type'' then
        map_sum id (\<lambda>x. md\<lparr>SeriesType := x\<rparr>) (decode_string v (SeriesType md))
      else if field_eq k ''6. Volume Factor (vFactor)'' then
        map_sum id (\<lambda>x. md\<lparr>VolumeFactor := x\<rparr>) (decode_string v (VolumeFactor md))
      else Inr md)"

text \<open>\<^verbatim>\<open>Timestamp\<close> has the tag \<^verbatim>\<open>json:"-"\<close>: no member is stored into it.\<close>

definition OHLCV_field ::
  "string \<Rightarrow> json \<Rightarrow> 'a OHLCV_scheme \<Rightarrow> error + 'a OHLCV_scheme" where
  "OHLCV_field k v r =
     (if field_eq k ''1. open'' then
        map_sum id (\<lambda>x. r\<lparr>Open := x\<rparr>) (decode_float64_string v (Open r))
      else if field_eq k ''2. high'' then
        map_sum id (\<lambda>x. r\<lparr>High := x\<rparr>) (decode_float64_string v (High r))
      else if field_eq k ''3. low'' then
        map_sum id (\<lambda>x. r\<lparr>Low := x\<rparr>) (decode_float64_string v (Low r))
      else if field_eq k ''4. close'' then
        map_sum id (\<lambda>x. r\<lparr>Close := x\<rparr>) (decode_float64_string v (Close r))
      else if field_eq k ''5. volume'' then
        map_sum id (\<lambda>x. r\<lparr>Volume := x\<rparr>) (decode_int_string v (Volume r))
      else Inr r)"

definition AdjustedOHLCV_field ::
  "string \<Rightarrow> json \<Rightarrow> AdjustedOHLCV \<Rightarrow> error + AdjustedOHLCV" where
  "AdjustedOHLCV_field k v r =
     (if field_eq k ''5. adjusted close'' then
        map_sum id (\<lambda>x. r\<lparr>AdjustedClose := x\<rparr>) (decode_float64_string v (AdjustedClose r))
      else if field_eq k ''7. dividend amount'' then
        map_sum id (\<lambda>x. r\<lparr>Dividend := x\<rparr>) (decode_float64_string v (Dividend r))
      else OHLCV_field k v r)"

subsection \<open>TimeSeriesIntraday.UnmarshalJSON\<close>

text \<open>The six assignments under \<^verbatim>\<open>if metaData, ok := raw["Meta Data"]...; ok\<close>.\<close>

definition intraday_MetaData ::
  "(string \<times> json) list \<Rightarrow> TimeSeriesMetaData \<Rightarrow> TimeSeriesMetaData result" where
  "intraday_MetaData metaData md =
     and_then (assert_string (map_of metaData ''1. Information'')) (\<lambda>information.
     and_then (assert_string (map_of metaData ''2. Symbol'')) (\<lambda>symbol.
     and_then (assert_string (map_of metaData ''3. Last Refreshed'')) (\<lambda>lastRefreshed.
     and_then (assert_string (map_of metaData ''4. Interval'')) (\<lambda>interval.
     and_then (assert_string (map_of metaData ''5. Output Size'')) (\<lambda>outputSize.
     and_then (assert_string (map_of metaData ''6. Time Zone'')) (\<lambda>timeZone.
     Ok (md\<lparr>Information := information, Symbol := symbol, LastRefreshed := lastRefreshed,
             Interval := interval, OutputSize := outputSize, TimeZone := timeZone\<rparr>)))))))"

text \<open>
  The inner loop \<^verbatim>\<open>for k, v := range tsData\<close>: \<open>ts\<close> is \<^verbatim>\<open>t.TimeSeries\<close>, which each
  round appends to. The entry goes through \<^verbatim>\<open>json.Marshal\<close> and back into an
  \<^verbatim>\<open>OHLCV\<close> whose \<^verbatim>\<open>Timestamp\<close> is already set.
\<close>

fun intraday_entries :: "(string \<times> json) list \<Rightarrow> OHLCV list \<Rightarrow> OHLCV list result" where
  "intraday_entries [] ts = Ok ts"
| "intraday_entries ((k, v) # tsData) ts =
     (case Parse_second k of
        None \<Rightarrow> Error ParseError
      | Some timestamp \<Rightarrow>
          (case decode_struct OHLCV_field (Marshal v) (zero_OHLCV\<lparr>Timestamp := timestamp\<rparr>) of
             Inl err \<Rightarrow> Error err
           | Inr ohlcv \<Rightarrow> intraday_entries tsData (ts @ [ohlcv])))"

text \<open>The outer loop \<^verbatim>\<open>for key, value := range raw\<close>.\<close>

fun intraday_series :: "(string \<times> json) list \<Rightarrow> OHLCV list \<Rightarrow> OHLCV list result" where
  "intraday_series [] ts = Ok ts"
| "intraday_series ((key, val) # raw) ts =
     (if HasPrefix key ''Time Series'' then
        (case val of
           JObject tsData \<Rightarrow> and_then (intraday_entries tsData ts) (intraday_series raw)
         | _ \<Rightarrow> Error (Errorf ''expected map for time series data''))
      else intraday_series raw ts)"

definition by_Timestamp :: "'a OHLCV_scheme \<Rightarrow> 'a OHLCV_scheme \<Rightarrow> bool" where
  "by_Timestamp a b = Before (Timestamp a) (Timestamp b)"

definition TimeSeriesIntraday_UnmarshalJSON ::
  "TimeSeriesIntraday \<Rightarrow> bytes \<Rightarrow> TimeSeriesIntraday result" where
  "TimeSeriesIntraday_UnmarshalJSON t data =
     (case Unmarshal_raw data of
        Inl err \<Rightarrow> Error err
      | Inr raw \<Rightarrow>
          and_then
            (case map_of raw ''Meta Data'' of
               Some (JObject metaData) \<Rightarrow> intraday_MetaData metaData (MetaData t)
             | _ \<Rightarrow> Ok (MetaData t)) (\<lambda>md.
          and_then (intraday_series raw (TimeSeries t)) (\<lambda>ts.
          Ok \<lparr>MetaData = md, TimeSeries = SliceStable by_Timestamp ts\<rparr>)))"

subsection \<open>The UnmarshalJSON methods of the daily, weekly and monthly series\<close>

text \<open>
  The helper struct \<^verbatim>\<open>aux\<close> has the field \<^verbatim>\<open>RawTimeSeries\<close>, a map from the date to
  the entry under the tag \<open>seriesKey\<close>, and through the embedded \<^verbatim>\<open>*Alias\<close> the field
  \<^verbatim>\<open>MetaData\<close> of the receiver under the tag \<^verbatim>\<open>Meta Data\<close>. \<open>aux_field\<close> stores one
  member of the payload; the state is the map and the metadata. A \<^verbatim>\<open>null\<close> under
  \<open>seriesKey\<close> sets the map to \<^verbatim>\<open>nil\<close>, an object adds its members to it.
\<close>

definition aux_field ::
  "string \<Rightarrow> (string \<Rightarrow> json \<Rightarrow> 'e \<Rightarrow> error + 'e) \<Rightarrow> 'e \<Rightarrow> string \<Rightarrow> json
     \<Rightarrow> (string \<times> 'e) list \<times> TimeSeriesMetaData
     \<Rightarrow> error + (string \<times> 'e) list \<times> TimeSeriesMetaData" where
  "aux_field seriesKey field zero k v aux =
     (if field_eq k seriesKey then
        (case v of
           JNull \<Rightarrow> Inr ([], snd aux)
         | JObject kvs \<Rightarrow>
             map_sum id (\<lambda>m. (m, snd aux)) (decode_map (decode_struct field) zero kvs (fst aux))
         | _ \<Rightarrow> Inl UnmarshalTypeError)
      else if field_eq k ''Meta Data'' then
        map_sum id (\<lambda>md. (fst aux, md)) (decode_struct TimeSeriesMetaData_field v (snd aux))
      else Inr aux)"

text \<open>
  The loop \<^verbatim>\<open>for dateStr, ohlcv := range aux.RawTimeSeries\<close>, appending to the slice that
  \<^verbatim>\<open>make\<close> has just emptied.
\<close>

fun dated_entries ::
  "(string \<times> 'a OHLCV_scheme) list \<Rightarrow> 'a OHLCV_scheme list \<Rightarrow> 'a OHLCV_scheme list result" where
  "dated_entries [] ts = Ok ts"
| "dated_entries ((dateStr, ohlcv) # raw) ts =
     (case Parse_date dateStr of
        None \<Rightarrow> Error ParseError
      | Some t \<Rightarrow> dated_entries raw (ts @ [ohlcv\<lparr>Timestamp := t\<rparr>]))"

text \<open>
  The six methods have one body, up to the tag of \<^verbatim>\<open>RawTimeSeries\<close> and the type of
  the entries. They end in \<^verbatim>\<open>sort.Slice\<close>, which promises a sorted permutation and no
  more (it is not stable): the model takes the library function as the argument \<open>Slice\<close>,
  and \<open>sorts\<close> is all that the theorems below assume of it. A payload that is the
  literal \<^verbatim>\<open>null\<close> sets the pointer \<^verbatim>\<open>aux\<close> to \<^verbatim>\<open>nil\<close>, and reading
  \<^verbatim>\<open>aux.RawTimeSeries\<close> then panics.
\<close>

definition sorts :: "(('e \<Rightarrow> 'e \<Rightarrow> bool) \<Rightarrow> 'e list \<Rightarrow> 'e list) \<Rightarrow> ('e \<Rightarrow> 'e \<Rightarrow> bool) \<Rightarrow> bool" where
  "sorts Slice lt =
     (\<forall>xs. mset (Slice lt xs) = mset xs \<and> sorted_wrt (\<lambda>a b. \<not> lt b a) (Slice lt xs))"

definition series_UnmarshalJSON ::
  "(('a OHLCV_scheme \<Rightarrow> 'a OHLCV_scheme \<Rightarrow> bool) \<Rightarrow> 'a OHLCV_scheme list \<Rightarrow> 'a OHLCV_scheme list)
     \<Rightarrow> string \<Rightarrow> (string \<Rightarrow> json \<Rightarrow> 'a OHLCV_scheme \<Rightarrow> error + 'a OHLCV_scheme)
     \<Rightarrow> 'a OHLCV_scheme \<Rightarrow> 'a OHLCV_scheme TimeSeriesOf \<Rightarrow> bytes
     \<Rightarrow> 'a OHLCV_scheme TimeSeriesOf result" where
  "series_UnmarshalJSON Slice seriesKey field zero ts data =
     (case data of
        None \<Rightarrow> Error SyntaxError
      | Some JNull \<Rightarrow> Panic NilDereference
      | Some (JObject kvs) \<Rightarrow>
          (case decode_object (aux_field seriesKey field zero) kvs ([], MetaData ts) of
             Inl err \<Rightarrow> Error err
           | Inr (RawTimeSeries, md) \<Rightarrow>
               and_then (dated_entries RawTimeSeries []) (\<lambda>xs.
               Ok \<lparr>MetaData = md, TimeSeries = Slice by_Timestamp xs\<rparr>))
      | Some _ \<Rightarrow> Error UnmarshalTypeError)"

definition TimeSeriesDaily_UnmarshalJSON ::
  "((OHLCV \<Rightarrow> OHLCV \<Rightarrow> bool) \<Rightarrow> OHLCV list \<Rightarrow> OHLCV list)
     \<Rightarrow> TimeSeriesDaily \<Rightarrow> bytes \<Rightarrow> TimeSeriesDaily result" where
  "TimeSeriesDaily_UnmarshalJSON Slice =
     series_UnmarshalJSON Slice ''Time Series (Daily)'' OHLCV_field zero_OHLCV"

definition TimeSeriesDailyAdjusted_UnmarshalJSON ::
  "((AdjustedOHLCV \<Rightarrow> AdjustedOHLCV \<Rightarrow> bool) \<Rightarrow> AdjustedOHLCV list \<Rightarrow> AdjustedOHLCV list)
     \<Rightarrow> TimeSeriesDailyAdjusted \<Rightarrow> bytes \<Rightarrow> TimeSeriesDailyAdjusted result" where
  "TimeSeriesDailyAdjusted_UnmarshalJSON Slice =
     series_UnmarshalJSON Slice ''Time Series (Daily Adjusted)'' AdjustedOHLCV_field
       zero_AdjustedOHLCV"

definition TimeSeriesWeekly_UnmarshalJSON ::
  "((OHLCV \<Rightarrow> OHLCV \<Rightarrow> bool) \<Rightarrow> OHLCV list \<Rightarrow> OHLCV list)
     \<Rightarrow> TimeSeriesWeekly \<Rightarrow> bytes \<Rightarrow> TimeSeriesWeekly result" where
  "TimeSeriesWeekly_UnmarshalJSON Slice =
     series_UnmarshalJSON Slice ''Weekly Time Series'' OHLCV_field zero_OHLCV"

definition TimeSeriesWeeklyAdjusted_UnmarshalJSON ::
  "((AdjustedOHLCV \<Rightarrow> AdjustedOHLCV \<Rightarrow> bool) \<Rightarrow> AdjustedOHLCV list \<Rightarrow> AdjustedOHLCV list)
     \<Rightarrow> TimeSeriesWeeklyAdjusted \<Rightarrow> bytes \<Rightarrow> TimeSeriesWeeklyAdjusted result" where
  "TimeSeriesWeeklyAdjusted_UnmarshalJSON Slice =
     series_UnmarshalJSON Slice ''Weekly Adjusted Time Series'' AdjustedOHLCV_field
       zero_AdjustedOHLCV"

definition TimeSeriesMonthly_UnmarshalJSON ::
  "((OHLCV \<Rightarrow> OHLCV \<Rightarrow> bool) \<Rightarrow> OHLCV list \<Rightarrow> OHLCV list)
     \<Rightarrow> TimeSeriesMonthly \<Rightarrow> bytes \<Rightarrow> TimeSeriesMonthly result" where
  "TimeSeriesMonthly_UnmarshalJSON Slice =
     series_UnmarshalJSON Slice ''Monthly Time Series'' OHLCV_field zero_OHLCV"

definition TimeSeriesMonthlyAdjusted_UnmarshalJSON ::
  "((AdjustedOHLCV \<Rightarrow> AdjustedOHLCV \<Rightarrow> bool) \<Rightarrow> AdjustedOHLCV list \<Rightarrow> AdjustedOHLCV list)
     \<Rightarrow> TimeSeriesMonthlyAdjusted \<Rightarrow> bytes \<Rightarrow> TimeSeriesMonthlyAdjusted result" where
  "TimeSeriesMonthlyAdjusted_UnmarshalJSON Slice =
     series_UnmarshalJSON Slice ''Monthly Adjusted Time Series'' AdjustedOHLCV_field
       zero_AdjustedOHLCV"

subsection \<open>Quote.UnmarshalJSON\<close>








subsection \<open>indicators.go\<close>

text \<open>
  \<^verbatim>\<open>extractMetaData\<close>: the loop over the map with its \<^verbatim>\<open>switch\<close> on the key, from the
  zero value of the struct. A key outside the seven cases falls through the switch.
\<close>

fun extractMetaData_range ::
  "(string \<times> json) list \<Rightarrow> TimeSeriesMetaData \<Rightarrow> TimeSeriesMetaData result" where
  "extractMetaData_range [] metaData = Ok metaData"
| "extractMetaData_range ((key, val) # rawData) metaData =
     (if key = ''1: Symbol'' then
        and_then (assert_string (Some val)) (\<lambda>s.
          extractMetaData_range rawData (metaData\<lparr>Symbol := s\<rparr>))
      else if key = ''2: Indicator'' then
        and_then (assert_string (Some val)) (\<lambda>s.
          extractMetaData_range rawData (metaData\<lparr>Information := s\<rparr>))
      else if key = ''3: Last Refreshed'' then
        and_then (assert_string (Some val)) (\<lambda>s.
          extractMetaData_range rawData (metaData\<lparr>LastRefreshed := s\<rparr>))
      else if key = ''4: Interval'' then
        and_then (assert_string (Some val)) (\<lambda>s.
          extractMetaData_range rawData (metaData\<lparr>Interval := s\<rparr>))
      else if key = ''5: Time Period'' then
        and_then (assert_float64 (Some val)) (\<lambda>x.
          extractMetaData_range rawData (metaData\<lparr>TimePeriod := x\<rparr>))
      else if key = ''6: Series Type'' then
        and_then (assert_string (Some val)) (\<lambda>s.
          extractMetaData_range rawData (metaData\<lparr>SeriesType := s\<rparr>))
      else if key = ''7: Time Zone'' then
        and_then (assert_string (Some val)) (\<lambda>s.
          extractMetaData_range rawData (metaData\<lparr>TimeZone := s\<rparr>))
      else extractMetaData_range rawData metaData)"

definition extractMetaData :: "(string \<times> json) list \<Rightarrow> TimeSeriesMetaData result" where
  "extractMetaData rawData = extractMetaData_range rawData zero_TimeSeriesMetaData"

text \<open>
  The loop \<^verbatim>\<open>for name, rawValue := range indicatorData\<close> into \<^verbatim>\<open>valueMap\<close>: a value
  that is not a string is passed over.
\<close>

fun indicator_values ::
  "(string \<times> json) list \<Rightarrow> (string \<times> float64) list \<Rightarrow> error + (string \<times> float64) list" where
  "indicator_values [] valueMap = Inr valueMap"
| "indicator_values ((name, rawValue) # indicatorData) valueMap =
     (case rawValue of
        JString s \<Rightarrow>
          (case ParseFloat s of
             (floatValue, None) \<Rightarrow>
               indicator_values indicatorData (AList.update name floatValue valueMap)
           | (floatValue, Some err) \<Rightarrow> Inl err)
      | _ \<Rightarrow> indicator_values indicatorData valueMap)"

text \<open>The loop \<^verbatim>\<open>for k, v := range tsData\<close>, appending to \<^verbatim>\<open>i.IndicatorValues\<close>.\<close>

fun indicator_entries ::
  "(string \<times> json) list \<Rightarrow> IndicatorValue list \<Rightarrow> IndicatorValue list result" where
  "indicator_entries [] ivs = Ok ivs"
| "indicator_entries ((k, v) # tsData) ivs =
     (case Parse_minute k of
        None \<Rightarrow> Error ParseError
      | Some timestamp \<Rightarrow>
          (case v of
             JObject indicatorData \<Rightarrow>
               (case indicator_values indicatorData [] of
                  Inl err \<Rightarrow> Error err
                | Inr valueMap \<Rightarrow>
                    indicator_entries tsData
                      (ivs @ [\<lparr>IV_Timestamp = timestamp, Values = valueMap\<rparr>]))
           | _ \<Rightarrow> Error (Errorf ''expected map for each timestamp data'')))"

definition by_IV_Timestamp :: "IndicatorValue \<Rightarrow> IndicatorValue \<Rightarrow> bool" where
  "by_IV_Timestamp a b = Before (IV_Timestamp a) (IV_Timestamp b)"

text \<open>\<^verbatim>\<open>expectedKey := "Technical Analysis: " + indicatorName\<close>.\<close>

definition expectedKey :: "string \<Rightarrow> string" where
  "expectedKey indicatorName = ''Technical Analysis: '' @ indicatorName"

definition UnmarshalIndicatorJSON ::
  "IndicatorResponse \<Rightarrow> bytes \<Rightarrow> string \<Rightarrow> IndicatorResponse result" where
  "UnmarshalIndicatorJSON i data indicatorName =
     (case Unmarshal_raw data of
        Inl err \<Rightarrow> Error err
      | Inr raw \<Rightarrow>
          and_then
            (case map_of raw ''Meta Data'' of
               Some (JObject metaData) \<Rightarrow> extractMetaData metaData
             | _ \<Rightarrow> Ok (I_MetaData i)) (\<lambda>md.
          and_then
            (case map_of raw (expectedKey indicatorName) of
               Some (JObject tsData) \<Rightarrow> indicator_entries tsData (IndicatorValues i)
             | _ \<Rightarrow> Ok (IndicatorValues i)) (\<lambda>ivs.
          Ok \<lparr>I_MetaData = md, IndicatorValues = SliceStable by_IV_Timestamp ivs\<rparr>)))"

subsection \<open>crypto.go\<close>

fun extractCryptoMetaData_range ::
  "(string \<times> json) list \<Rightarrow> CryptoMetaData \<Rightarrow> CryptoMetaData result" where
  "extractCryptoMetaData_range [] metaData = Ok metaData"
| "extractCryptoMetaData_range ((key, val) # rawData) metaData =
     (if key = ''1. Information'' then
        and_then (assert_string (Some val)) (\<lambda>s.
          extractCryptoMetaData_range rawData (metaData\<lparr>C_Information := s\<rparr>))
      else if key = ''2. Digital Currency Code'' then
        and_then (assert_string (Some val)) (\<lambda>s.
          extractCryptoMetaData_range rawData (metaData\<lparr>DigitalCurrencyCode := s\<rparr>))
      else if key = ''3. Digital Currency Name'' then
        and_then (assert_string (Some val)) (\<lambda>s.
          extractCryptoMetaData_range rawData (metaData\<lparr>DigitalCurrencyName := s\<rparr>))
      else if key = ''4. Market Code'' then
        and_then (assert_string (Some val)) (\<lambda>s.
          extractCryptoMetaData_range rawData (metaData\<lparr>MarketCode := s\<rparr>))
      else if key = ''5. Market Name'' then
        and_then (assert_string (Some val)) (\<lambda>s.
          extractCryptoMetaData_range rawData (metaData\<lparr>MarketName := s\<rparr>))
      else if key = ''6. Last Refreshed'' then
        and_then (assert_string (Some val)) (\<lambda>s.
          extractCryptoMetaData_range rawData (metaData\<lparr>C_LastRefreshed := s\<rparr>))
      else if key = ''7. Time Zone'' then
        and_then (assert_string (Some val)) (\<lambda>s.
          extractCryptoMetaData_range rawData (metaData\<lparr>C_TimeZone := s\<rparr>))
      else extractCryptoMetaData_range rawData metaData)"

definition extractCryptoMetaData :: "(string \<times> json) list \<Rightarrow> CryptoMetaData result" where
  "extractCryptoMetaData rawData = extractCryptoMetaData_range rawData zero_CryptoMetaData"

text \<open>
  The six lines \<^verbatim>\<open>open, _ := strconv.ParseFloat(valuesMap["1a. open (USD)"].(string), 64)\<close>
  to \<^verbatim>\<open>marketCap\<close> and the struct they fill: the type assertion is unchecked, the error
  of \<^verbatim>\<open>ParseFloat\<close> is dropped and its value kept.
\<close>

definition crypto_values :: "Time \<Rightarrow> (string \<times> json) list \<Rightarrow> CryptoTimeSeriesData result" where
  "crypto_values timestamp valuesMap =
     and_then (assert_string (map_of valuesMap ''1a. open (USD)'')) (\<lambda>s1.
     and_then (assert_string (map_of valuesMap ''2a. high (USD)'')) (\<lambda>s2.
     and_then (assert_string (map_of valuesMap ''3a. low (USD)'')) (\<lambda>s3.
     and_then (assert_string (map_of valuesMap ''4a. close (USD)'')) (\<lambda>s4.
     and_then (assert_string (map_of valuesMap ''5. volume'')) (\<lambda>s5.
     and_then (assert_string (map_of valuesMap ''6. market cap (USD)'')) (\<lambda>s6.
     Ok \<lparr>C_Timestamp = timestamp,
         C_Open = fst (ParseFloat s1), C_High = fst (ParseFloat s2),
         C_Low = fst (ParseFloat s3), C_Close = fst (ParseFloat s4),
         C_Volume = fst (ParseFloat s5), MarketCap = fst (ParseFloat s6)\<rparr>))))))"

text \<open>The loop \<^verbatim>\<open>for date, values := range timeSeriesMap\<close>.\<close>

fun crypto_entries ::
  "(string \<times> json) list \<Rightarrow> CryptoTimeSeriesData list \<Rightarrow> CryptoTimeSeriesData list result" where
  "crypto_entries [] ts = Ok ts"
| "crypto_entries ((date, vals) # timeSeriesMap) ts =
     (case Parse_date date of
        None \<Rightarrow> Error ParseError
      | Some timestamp \<Rightarrow>
          (case vals of
             JObject valuesMap \<Rightarrow>
               and_then (crypto_values timestamp valuesMap) (\<lambda>x.
                 crypto_entries timeSeriesMap (ts @ [x]))
           | _ \<Rightarrow> Error (Errorf ''expected map for timestamp data'')))"

text \<open>
  The loop \<^verbatim>\<open>for tsKey, tsData := range raw\<close>; the state is \<^verbatim>\<open>c.TimeSeries\<close> and
  \<^verbatim>\<open>c.IntervalLabel\<close>. The assertion \<^verbatim>\<open>tsData.(map[string]interface{})\<close> is unchecked.
\<close>

fun crypto_series ::
  "(string \<times> json) list \<Rightarrow> CryptoTimeSeriesData list \<times> string
     \<Rightarrow> (CryptoTimeSeriesData list \<times> string) result" where
  "crypto_series [] st = Ok st"
| "crypto_series ((tsKey, tsData) # raw) st =
     (if HasPrefix tsKey ''Time Series'' then
        (case tsData of
           JObject timeSeriesMap \<Rightarrow>
             and_then (crypto_entries timeSeriesMap (fst st)) (\<lambda>ts.
               crypto_series raw (ts, tsKey))
         | _ \<Rightarrow> Panic TypeAssertion)
      else crypto_series raw st)"

definition by_C_Timestamp :: "CryptoTimeSeriesData \<Rightarrow> CryptoTimeSeriesData \<Rightarrow> bool" where
  "by_C_Timestamp a b = Before (C_Timestamp a) (C_Timestamp b)"

definition UnmarshalCryptoJSON :: "CryptoSeriesResponse \<Rightarrow> bytes \<Rightarrow> CryptoSeriesResponse result" where
  "UnmarshalCryptoJSON c data =
     (case Unmarshal_raw data of
        Inl err \<Rightarrow> Error err
      | Inr raw \<Rightarrow>
          and_then
            (case map_of raw ''Meta Data'' of
               Some (JObject metaData) \<Rightarrow> extractCryptoMetaData metaData
             | _ \<Rightarrow> Ok (C_MetaData c)) (\<lambda>md.
          and_then (crypto_series raw (C_TimeSeries c, IntervalLabel c)) (\<lambda>st.
          Ok \<lparr>C_MetaData = md, C_TimeSeries = SliceStable by_C_Timestamp (fst st),
              IntervalLabel = snd st\<rparr>)))"

subsection \<open>The order of a decoded sequence\<close>

text \<open>
  A sequence of timestamps is non-decreasing when no entry is before its predecessor;
  two timestamps compare equal when neither is before the other.
\<close>

definition nondecreasing :: "Time list \<Rightarrow> bool" where
  "nondecreasing ts = (\<forall>i. i + 1 < length ts \<longrightarrow> \<not> Before (ts ! (i + 1)) (ts ! i))"

definition same_instant :: "Time \<Rightarrow> Time \<Rightarrow> bool" where
  "same_instant t u = (\<not> Before t u \<and> \<not> Before u t)"

subsection \<open>Receivers and payloads of the examples\<close>

text \<open>The receivers the client passes: a variable that holds the zero value of its struct.\<close>

definition fresh_TimeSeries :: "'e TimeSeriesOf" where
  "fresh_TimeSeries = \<lparr>MetaData = zero_TimeSeriesMetaData, TimeSeries = []\<rparr>"

definition fresh_IndicatorResponse :: IndicatorResponse where
  "fresh_IndicatorResponse = \<lparr>I_MetaData = zero_TimeSeriesMetaData, IndicatorValues = []\<rparr>"

definition fresh_CryptoSeriesResponse :: CryptoSeriesResponse where
  "fresh_CryptoSeriesResponse =
     \<lparr>C_MetaData = zero_CryptoMetaData, C_TimeSeries = [], IntervalLabel = []\<rparr>"

definition date_time :: "nat \<Rightarrow> nat \<Rightarrow> nat \<Rightarrow> nat \<Rightarrow> nat \<Rightarrow> Time" where
  "date_time y m d h mi =
     \<lparr>Year = y, Month = m, Day = d, Hour = h, Minute = mi, Second = 0, Nanosecond = 0\<rparr>"

text \<open>An intraday payload of two entries, the later one first.\<close>

definition intraday_two :: bytes where
  "intraday_two =
     Some (JObject [(''Time Series (1min)'', JObject
       [(''2023-09-08 16:00:00'', JObject [(''1. open'', JString ''330.00'')]),
        (''2023-09-08 15:59:00'', JObject [(''1. open'', JString ''329.00'')])])])"

text \<open>A daily payload of two entries, the later one first.\<close>

definition daily_two :: bytes where
  "daily_two =
     Some (JObject [(''Time Series (Daily)'', JObject
       [(''2023-09-08'', JObject [(''1. open'', JString ''330.00'')]),
        (''2023-09-07'', JObject [(''1. open'', JString ''329.00'')])])])"

text \<open>An indicator payload with one sub-field at each of two timestamps.\<close>

definition indicator_SMA :: bytes where
  "indicator_SMA =
     Some (JObject [(''Technical Analysis: SMA'', JObject
       [(''2023-09-08 16:00'', JObject [(''SMA'', JString ''330.00'')]),
        (''2023-09-08 15:59'', JObject [(''SMA'', JString ''329.00'')])])])"

text \<open>The six sub-fields of a crypto entry, and a payload of two entries.\<close>

definition crypto_fields :: "string \<Rightarrow> json" where
  "crypto_fields opn =
     JObject [(''1a. open (USD)'', JString opn), (''2a. high (USD)'', JString ''330.00''),
              (''3a. low (USD)'', JString ''329.00''), (''4a. close (USD)'', JString ''330.00''),
              (''5. volume'', JString ''330.00''), (''6. market cap (USD)'', JString ''330.00'')]"

definition crypto_two :: bytes where
  "crypto_two =
     Some (JObject [(''Time Series (Digital Currency Daily)'', JObject
       [(''2023-09-08'', crypto_fields ''330.00''),
        (''2023-09-07'', crypto_fields ''329.00'')])])"

text \<open>What the four payloads decode to, in ascending order.\<close>

definition intraday_two_result :: TimeSeriesIntraday where
  "intraday_two_result =
     \<lparr>MetaData = zero_TimeSeriesMetaData, TimeSeries =
       [zero_OHLCV\<lparr>Timestamp := date_time 2023 9 8 15 59, Open := Finite 329\<rparr>,
        zero_OHLCV\<lparr>Timestamp := date_time 2023 9 8 16 0, Open := Finite 330\<rparr>]\<rparr>"

definition daily_two_result :: TimeSeriesDaily where
  "daily_two_result =
     \<lparr>MetaData = zero_TimeSeriesMetaData, TimeSeries =
       [zero_OHLCV\<lparr>Timestamp := date_time 2023 9 7 0 0, Open := Finite 329\<rparr>,
        zero_OHLCV\<lparr>Timestamp := date_time 2023 9 8 0 0, Open := Finite 330\<rparr>]\<rparr>"

definition indicator_SMA_result :: IndicatorResponse where
  "indicator_SMA_result =
     \<lparr>I_MetaData = zero_TimeSeriesMetaData, IndicatorValues =
       [\<lparr>IV_Timestamp = date_time 2023 9 8 15 59, Values = [(''SMA'', Finite 329)]\<rparr>,
        \<lparr>IV_Timestamp = date_time 2023 9 8 16 0, Values = [(''SMA'', Finite 330)]\<rparr>]\<rparr>"

definition crypto_entry :: "Time \<Rightarrow> float64 \<Rightarrow> CryptoTimeSeriesData" where
  "crypto_entry t opn =
     \<lparr>C_Timestamp = t, C_Open = opn, C_High = Finite 330, C_Low = Finite 329,
      C_Close = Finite 330, C_Volume = Finite 330, MarketCap = Finite 330\<rparr>"

definition crypto_two_result :: CryptoSeriesResponse where
  "crypto_two_result =
     \<lparr>C_MetaData = zero_CryptoMetaData,
      C_TimeSeries = [crypto_entry (date_time 2023 9 7 0 0) (Finite 329),
                      crypto_entry (date_time 2023 9 8 0 0) (Finite 330)],
      IntervalLabel = ''Time Series (Digital Currency Daily)''\<rparr>"

text \<open>
  An intraday payload with two keys that spell the same instant (the hour of the layout
  may have one digit or two), and what it decodes to.
\<close>

definition intraday_tie :: bytes where
  "intraday_tie =
     Some (JObject [(''Time Series (1min)'', JObject
       [(''2023-09-08 9:30:00'', JObject [(''1. open'', JString ''330.00'')]),
        (''2023-09-08 09:30:00'', JObject [(''1. open'', JString ''329.00'')])])])"

definition intraday_tie_result :: TimeSeriesIntraday where
  "intraday_tie_result =
     \<lparr>MetaData = zero_TimeSeriesMetaData, TimeSeries =
       [zero_OHLCV\<lparr>Timestamp := date_time 2023 9 8 9 30, Open := Finite 330\<rparr>,
        zero_OHLCV\<lparr>Timestamp := date_time 2023 9 8 9 30, Open := Finite 329\<rparr>]\<rparr>"

text \<open>
  A payload without any of the expected keys: the note the service sends in place of data
  when a key has used up its calls.
\<close>

definition rate_limited :: bytes where
  "rate_limited = Some (JObject [(''Note'', JString ''Thank you for using Alpha Vantage!'')])"

text \<open>A payload of the EMA indicator, which a caller may decode asking for SMA.\<close>

definition scenario_C :: bytes where
  "scenario_C =
     Some (JObject [(''Technical Analysis: EMA'', JObject
       [(''2023-09-08 16:00'', JObject [(''EMA'', JString ''330.00'')])])])"

text \<open>Receivers that already hold one entry, as after an earlier decode.\<close>

definition stale_OHLCV :: OHLCV where
  "stale_OHLCV = zero_OHLCV\<lparr>Timestamp := date_time 2023 9 1 9 30, Open := Finite 300\<rparr>"

definition used_TimeSeries :: "OHLCV TimeSeriesOf" where
  "used_TimeSeries = \<lparr>MetaData = zero_TimeSeriesMetaData, TimeSeries = [stale_OHLCV]\<rparr>"

definition stale_IndicatorValue :: IndicatorValue where
  "stale_IndicatorValue =
     \<lparr>IV_Timestamp = date_time 2023 9 1 9 30, Values = [(''SMA'', Finite 300)]\<rparr>"

definition used_IndicatorResponse :: IndicatorResponse where
  "used_IndicatorResponse =
     \<lparr>I_MetaData = zero_TimeSeriesMetaData, IndicatorValues = [stale_IndicatorValue]\<rparr>"

definition used_CryptoSeriesResponse :: CryptoSeriesResponse where
  "used_CryptoSeriesResponse =
     \<lparr>C_MetaData = zero_CryptoMetaData,
      C_TimeSeries = [crypto_entry (date_time 2023 9 1 0 0) (Finite 300)],
      IntervalLabel = []\<rparr>"

text \<open>
  Scenario A of the specification: a daily payload with its metadata and one entry. The
  metadata it leaves in a receiver, and the entry.
\<close>

definition scenario_A :: bytes where
  "scenario_A =
     Some (JObject
       [(''Meta Data'', JObject
           [(''1. Information'', JString ''Daily Prices''), (''2. Symbol'', JString ''MSFT''),
            (''3. Last Refreshed'', JString ''2023-09-08''), (''4. Interval'', JString ''Daily''),
            (''5. Output Size'', JString ''Compact''), (''6. Time Zone'', JString ''US/Eastern'')]),
        (''Time Series (Daily)'', JObject
           [(''2023-09-08'', JObject
               [(''1. open'', JString ''330.00''), (''2. high'', JString ''335.00''),
                (''3. low'', JString ''329.00''), (''4. close'', JString ''334.00''),
                (''5. volume'', JString ''1000000'')])])])"

definition scenario_A_MetaData :: "TimeSeriesMetaData \<Rightarrow> TimeSeriesMetaData" where
  "scenario_A_MetaData md =
     md\<lparr>Information := ''Daily Prices'', Symbol := ''MSFT'', LastRefreshed := ''2023-09-08'',
        Interval := ''Daily'', OutputSize := ''Compact'', TimeZone := ''US/Eastern''\<rparr>"

definition scenario_A_entry :: OHLCV where
  "scenario_A_entry =
     \<lparr>Timestamp = date_time 2023 9 8 0 0, Open = Finite 330, High = Finite 335,
      Low = Finite 329, Close = Finite 334, Volume = 1000000\<rparr>"


text \<open>
  The keys that the \<^verbatim>\<open>switch\<close> of each metadata extractor names, and whether a member
  of the metadata object passes the type assertion of its case: a string, or a number
  under \<^verbatim>\<open>5: Time Period\<close>. A member under any other key passes.
\<close>

definition is_JString :: "json \<Rightarrow> bool" where
  "is_JString v = (case v of JString s \<Rightarrow> True | _ \<Rightarrow> False)"

definition is_JNumber :: "json \<Rightarrow> bool" where
  "is_JNumber v = (case v of JNumber n \<Rightarrow> True | _ \<Rightarrow> False)"

definition extractMetaData_keys :: "string list" where
  "extractMetaData_keys =
     [''1: Symbol'', ''2: Indicator'', ''3: Last Refreshed'', ''4: Interval'',
      ''5: Time Period'', ''6: Series Type'', ''7: Time Zone'']"

definition extractMetaData_accepts :: "string \<times> json \<Rightarrow> bool" where
  "extractMetaData_accepts kv =
     (if fst kv = ''5: Time Period'' then is_JNumber (snd kv)
      else if fst kv \<in> set extractMetaData_keys then is_JString (snd kv)
      else True)"

definition extractCryptoMetaData_keys :: "string list" where
  "extractCryptoMetaData_keys =
     [''1. Information'', ''2. Digital Currency Code'', ''3. Digital Currency Name'',
      ''4. Market Code'', ''5. Market Name'', ''6. Last Refreshed'', ''7. Time Zone'']"

definition extractCryptoMetaData_accepts :: "string \<times> json \<Rightarrow> bool" where
  "extractCryptoMetaData_accepts kv =
     (if fst kv \<in> set extractCryptoMetaData_keys then is_JString (snd kv) else True)"

text \<open>
  An indicator payload and a crypto payload whose metadata holds a number where the
  extractor asserts a string.
\<close>

definition bad_symbol :: bytes where
  "bad_symbol = Some (JObject [(''Meta Data'', JObject [(''1: Symbol'', JNumber 1)])])"

definition bad_information :: bytes where
  "bad_information = Some (JObject [(''Meta Data'', JObject [(''1. Information'', JNumber 1)])])"

text \<open>
  An entry of the indicator sequence captures a member of the value block when its
  timestamp is the key read with the indicator layout and the keys of its \<^verbatim>\<open>Values\<close> are
  the names of the sub-fields that hold a string, in their order.
\<close>

definition captured :: "string \<times> json \<Rightarrow> IndicatorValue \<Rightarrow> bool" where
  "captured kv e =
     (Parse_minute (fst kv) = Some (IV_Timestamp e) \<and>
      (case snd kv of
         JObject subs \<Rightarrow>
           map fst (Values e) = map fst (filter (\<lambda>f. is_JString (snd f)) subs)
       | _ \<Rightarrow> False))"

text \<open>
  An indicator payload with three sub-fields at one timestamp and what it decodes to, and
  a payload whose one sub-field holds a number instead of a string.
\<close>

definition indicator_BBANDS :: bytes where
  "indicator_BBANDS =
     Some (JObject [(''Technical Analysis: BBANDS'', JObject
       [(''2023-09-08 16:00'', JObject
           [(''Real Upper Band'', JString ''335.00''), (''Real Middle Band'', JString ''330.00''),
            (''Real Lower Band'', JString ''329.00'')])])])"

definition indicator_BBANDS_result :: IndicatorResponse where
  "indicator_BBANDS_result =
     \<lparr>I_MetaData = zero_TimeSeriesMetaData, IndicatorValues =
       [\<lparr>IV_Timestamp = date_time 2023 9 8 16 0,
         Values = [(''Real Upper Band'', Finite 335), (''Real Middle Band'', Finite 330),
                   (''Real Lower Band'', Finite 329)]\<rparr>]\<rparr>"

definition indicator_number :: bytes where
  "indicator_number =
     Some (JObject [(''Technical Analysis: SMA'', JObject
       [(''2023-09-08 16:00'', JObject [(''SMA'', JNumber 330)])])])"



















section \<open>Properties\<close>

subsection \<open>Sequencing and type assertions\<close>

lemma and_then_Panic: "and_then (Panic p) f = Panic p"
  by (simp add: and_then_def)

lemma and_then_Ok: "and_then (Ok x) f = f x"
  by (simp add: and_then_def)

lemma and_then_Error: "and_then (Error e) f = Error e"
  by (simp add: and_then_def)




lemma go_map_Nil: "go_map [] = []"
  by (simp add: go_map_def)


subsection \<open>The metadata of the intraday series\<close>




subsection \<open>Evaluating the parsers\<close>

lemmas parse_defs = Parse_second_def Parse_date_def Parse_minute_def parse_ymd_def parse_hm_def
  skip_space_def parse_fraction_def getyear_def digits_value_def digit_def isDigit_def daysIn_def
  isLeap_def

lemmas float_defs = special_def lower_def readFloat_def readExponent_def underscoreOK_def
  hex_prefix_def scale_def isExpDigit_def exponent_value_def isHexLetter_def hexLetter_def
  isDigit_def digits_value_def digit_def

lemma ParseFloat_Finite:
  "special s = None \<Longrightarrow> readFloat s = Some (q, []) \<Longrightarrow> - float64_overflow < q \<Longrightarrow>
   q < float64_overflow \<Longrightarrow> ParseFloat s = (Finite q, None)"
  by (simp add: ParseFloat_def)

lemma ParseFloat_330: "ParseFloat ''330.00'' = (Finite 330, None)"
  by (rule ParseFloat_Finite) (simp_all add: float_defs float64_overflow_def)

lemma ParseFloat_329: "ParseFloat ''329.00'' = (Finite 329, None)"
  by (rule ParseFloat_Finite) (simp_all add: float_defs float64_overflow_def)


text \<open>
  Underscores between digits and hexadecimal mantissas are numbers for
  \<^verbatim>\<open>strconv.ParseFloat\<close>; an underscore elsewhere and a hexadecimal mantissa without an
  exponent are not, and a number beyond the largest \<^verbatim>\<open>float64\<close> is out of range.
\<close>

lemma ParseFloat_underscore: "ParseFloat ''1_000.5'' = (Finite (2001 / 2), None)"
  by (rule ParseFloat_Finite) (simp_all add: float_defs float64_overflow_def)

lemma ParseFloat_underscore_twice: "ParseFloat ''1__0'' = (Finite 0, Some ErrSyntax)"
  by (simp add: ParseFloat_def float_defs)

lemma ParseFloat_hexadecimal: "ParseFloat ''0x1p4'' = (Finite 16, None)"
  by (rule ParseFloat_Finite) (simp_all add: float_defs float64_overflow_def)

lemma ParseFloat_hexadecimal_no_exponent: "ParseFloat ''0x10'' = (Finite 0, Some ErrSyntax)"
  by (simp add: ParseFloat_def float_defs)

lemma ParseFloat_exponent: "ParseFloat ''1.5e3'' = (Finite 1500, None)"
  by (rule ParseFloat_Finite) (simp_all add: float_defs float64_overflow_def)

lemma ParseFloat_out_of_range: "ParseFloat ''1e400'' = (PosInf, Some ErrRange)"
  by (simp add: ParseFloat_def float_defs float64_overflow_def)

text \<open>A number out of range anywhere in the document makes \<^verbatim>\<open>json.Unmarshal\<close> fail.\<close>

lemma Unmarshal_raw_out_of_range:
  "Unmarshal_raw (Some (JObject [(''x'', JNumber (10 ^ 400))])) = Inl UnmarshalTypeError"
  by (simp add: Unmarshal_raw_def in_float64_def float64_overflow_def)

lemma Parse_second_1600: "Parse_second ''2023-09-08 16:00:00'' = Some (date_time 2023 9 8 16 0)"
  by (simp add: parse_defs date_time_def)

lemma Parse_second_1559: "Parse_second ''2023-09-08 15:59:00'' = Some (date_time 2023 9 8 15 59)"
  by (simp add: parse_defs date_time_def)

lemma Parse_minute_1600: "Parse_minute ''2023-09-08 16:00'' = Some (date_time 2023 9 8 16 0)"
  by (simp add: parse_defs date_time_def)

lemma Parse_minute_1559: "Parse_minute ''2023-09-08 15:59'' = Some (date_time 2023 9 8 15 59)"
  by (simp add: parse_defs date_time_def)

lemma Parse_date_0908: "Parse_date ''2023-09-08'' = Some (date_time 2023 9 8 0 0)"
  by (simp add: parse_defs date_time_def)

lemma Parse_date_0907: "Parse_date ''2023-09-07'' = Some (date_time 2023 9 7 0 0)"
  by (simp add: parse_defs date_time_def)

lemma Before_date_time:
  "Before (date_time y m d h mi) (date_time y' m' d' h' mi') \<longleftrightarrow>
   (y, m, d, h, mi) < (y', m', d', h', mi')"
  by (auto simp: Before_def time_key_def date_time_def)

subsection \<open>Sorting by timestamp\<close>

lemma insert_stable_insort_key:
  fixes f :: "'a \<Rightarrow> 'k::linorder"
  shows "insert_stable (\<lambda>a b. f a < f b) x ys = insort_key f x ys"
  by (induction ys) (auto simp: not_less)

lemma SliceStable_sort_key:
  fixes f :: "'a \<Rightarrow> 'k::linorder"
  shows "SliceStable (\<lambda>a b. f a < f b) xs = sort_key f xs"
  by (induction xs) (simp_all add: SliceStable_def insert_stable_insort_key)

lemma same_instant_key: "same_instant t u \<longleftrightarrow> time_key t = time_key u"
  by (auto simp: same_instant_def Before_def)

lemma time_key_inject: "time_key t = time_key u \<longleftrightarrow> t = (u::Time)"
  by (cases t, cases u) (auto simp: time_key_def)

lemma nondecreasing_sorted: "sorted (map time_key ts) \<Longrightarrow> nondecreasing ts"
proof -
  assume s: "sorted (map time_key ts)"
  { fix i assume i: "i + 1 < length ts"
    have "map time_key ts ! i \<le> map time_key ts ! (i + 1)"
      using s i by (intro sorted_nth_mono) simp_all
    then have "\<not> Before (ts ! (i + 1)) (ts ! i)"
      using i by (simp add: Before_def not_less) }
  then show ?thesis by (simp add: nondecreasing_def)
qed

lemma by_Timestamp_key: "by_Timestamp = (\<lambda>a b. time_key (Timestamp a) < time_key (Timestamp b))"
  by (simp add: by_Timestamp_def Before_def fun_eq_iff)

lemma by_IV_Timestamp_key:
  "by_IV_Timestamp = (\<lambda>a b. time_key (IV_Timestamp a) < time_key (IV_Timestamp b))"
  by (simp add: by_IV_Timestamp_def Before_def fun_eq_iff)

lemma by_C_Timestamp_key:
  "by_C_Timestamp = (\<lambda>a b. time_key (C_Timestamp a) < time_key (C_Timestamp b))"
  by (simp add: by_C_Timestamp_def Before_def fun_eq_iff)

lemma SliceStable_by_Timestamp:
  "SliceStable by_Timestamp xs = sort_key (\<lambda>a. time_key (Timestamp a)) xs"
  unfolding by_Timestamp_key by (rule SliceStable_sort_key)

lemma SliceStable_by_IV_Timestamp:
  "SliceStable by_IV_Timestamp xs = sort_key (\<lambda>a. time_key (IV_Timestamp a)) xs"
  unfolding by_IV_Timestamp_key by (rule SliceStable_sort_key)

lemma SliceStable_by_C_Timestamp:
  "SliceStable by_C_Timestamp xs = sort_key (\<lambda>a. time_key (C_Timestamp a)) xs"
  unfolding by_C_Timestamp_key by (rule SliceStable_sort_key)

lemma nondecreasing_sort_key:
  "nondecreasing (map g (sort_key (\<lambda>a. time_key (g a)) xs))"
proof -
  have "sorted (map (\<lambda>a. time_key (g a)) (sort_key (\<lambda>a. time_key (g a)) xs))"
    by (rule sorted_sort_key)
  then have "sorted (map time_key (map g (sort_key (\<lambda>a. time_key (g a)) xs)))"
    by (simp add: comp_def)
  then show ?thesis by (rule nondecreasing_sorted)
qed

lemma sorts_nondecreasing:
  assumes "sorts Slice by_Timestamp"
  shows "nondecreasing (map Timestamp (Slice by_Timestamp xs))"
proof -
  have s: "sorted_wrt (\<lambda>a b. \<not> by_Timestamp b a) (Slice by_Timestamp xs)"
    using assms by (simp add: sorts_def)
  { fix i assume i: "i + 1 < length (Slice by_Timestamp xs)"
    have "\<not> by_Timestamp (Slice by_Timestamp xs ! (i + 1)) (Slice by_Timestamp xs ! i)"
      using sorted_wrt_nth_less [OF s, of i "i + 1"] i by simp
    then have "\<not> Before (map Timestamp (Slice by_Timestamp xs) ! (i + 1))
                         (map Timestamp (Slice by_Timestamp xs) ! i)"
      using i by (simp add: by_Timestamp_def) }
  then show ?thesis by (simp add: nondecreasing_def)
qed

text \<open>A stable sort is in particular a sort: \<open>SliceStable\<close> meets what is assumed of \<open>Slice\<close>.\<close>

lemma sorts_SliceStable: "sorts SliceStable by_Timestamp"
proof -
  { fix xs :: "'a OHLCV_scheme list"
    have "sorted (map (\<lambda>a. time_key (Timestamp a)) (sort_key (\<lambda>a. time_key (Timestamp a)) xs))"
      by (rule sorted_sort_key)
    then have "sorted_wrt (\<lambda>a b. time_key (Timestamp a) \<le> time_key (Timestamp b))
                 (sort_key (\<lambda>a. time_key (Timestamp a)) xs)"
      by (simp add: sorted_map)
    then have "sorted_wrt (\<lambda>a b. \<not> by_Timestamp b a) (SliceStable by_Timestamp xs)"
      by (simp add: by_Timestamp_key SliceStable_sort_key not_less) }
  then show ?thesis
    by (simp add: sorts_def SliceStable_by_Timestamp)
qed

lemma intraday_nondecreasing:
  "TimeSeriesIntraday_UnmarshalJSON t data = Ok t' \<Longrightarrow>
   nondecreasing (map Timestamp (TimeSeries t'))"
  by (auto simp: TimeSeriesIntraday_UnmarshalJSON_def and_then_def SliceStable_by_Timestamp
      nondecreasing_sort_key split: sum.splits result.splits)

lemma series_nondecreasing:
  "sorts Slice by_Timestamp \<Longrightarrow>
   series_UnmarshalJSON Slice seriesKey field zero ts data = Ok ts' \<Longrightarrow>
   nondecreasing (map Timestamp (TimeSeries ts'))"
  by (auto simp: series_UnmarshalJSON_def and_then_def sorts_nondecreasing
      split: option.splits json.splits sum.splits result.splits)

lemma indicator_nondecreasing:
  "UnmarshalIndicatorJSON i data indicatorName = Ok i' \<Longrightarrow>
   nondecreasing (map IV_Timestamp (IndicatorValues i'))"
  by (auto simp: UnmarshalIndicatorJSON_def and_then_def SliceStable_by_IV_Timestamp
      nondecreasing_sort_key split: sum.splits result.splits)

lemma crypto_nondecreasing:
  "UnmarshalCryptoJSON c data = Ok c' \<Longrightarrow>
   nondecreasing (map C_Timestamp (C_TimeSeries c'))"
  by (auto simp: UnmarshalCryptoJSON_def and_then_def SliceStable_by_C_Timestamp
      nondecreasing_sort_key split: sum.splits result.splits)

subsection \<open>The example payloads decoded\<close>

lemmas decode_defs = Unmarshal_raw_def go_map_def and_then_def HasPrefix_def decode_struct_def
  expectedKey_def
  Marshal_def OHLCV_field_def field_eq_def decode_float64_string_def decode_int_string_def
  quoted_number_def isDigit_def SliceStable_def

lemma intraday_two_decoded:
  "TimeSeriesIntraday_UnmarshalJSON fresh_TimeSeries intraday_two = Ok intraday_two_result"
  by (simp add: TimeSeriesIntraday_UnmarshalJSON_def intraday_two_def fresh_TimeSeries_def
      intraday_two_result_def decode_defs Parse_second_1600 Parse_second_1559
      ParseFloat_330 ParseFloat_329 by_Timestamp_def Before_date_time)

lemma series_two_decoded:
  "series_UnmarshalJSON SliceStable ''Time Series (Daily)'' OHLCV_field zero_OHLCV
     fresh_TimeSeries daily_two = Ok daily_two_result"
  by (simp add: series_UnmarshalJSON_def daily_two_def
      fresh_TimeSeries_def daily_two_result_def aux_field_def
      decode_defs Parse_date_0908 Parse_date_0907 ParseFloat_330 ParseFloat_329
      by_Timestamp_def Before_date_time)

lemma daily_two_decoded:
  "TimeSeriesDaily_UnmarshalJSON SliceStable fresh_TimeSeries daily_two = Ok daily_two_result"
  by (simp add: TimeSeriesDaily_UnmarshalJSON_def series_two_decoded)

lemma indicator_SMA_decoded:
  "UnmarshalIndicatorJSON fresh_IndicatorResponse indicator_SMA ''SMA'' = Ok indicator_SMA_result"
  by (simp add: UnmarshalIndicatorJSON_def indicator_SMA_def fresh_IndicatorResponse_def
      indicator_SMA_result_def decode_defs Parse_minute_1600 Parse_minute_1559
      ParseFloat_330 ParseFloat_329 by_IV_Timestamp_def Before_date_time)

lemma crypto_values_fields:
  "crypto_values t [(''1a. open (USD)'', JString opn), (''2a. high (USD)'', JString ''330.00''),
              (''3a. low (USD)'', JString ''329.00''), (''4a. close (USD)'', JString ''330.00''),
              (''5. volume'', JString ''330.00''), (''6. market cap (USD)'', JString ''330.00'')] =
   Ok (crypto_entry t (fst (ParseFloat opn)))"
  by (simp add: crypto_values_def assert_string_def and_then_def ParseFloat_330 ParseFloat_329
      crypto_entry_def)

lemma crypto_two_decoded:
  "UnmarshalCryptoJSON fresh_CryptoSeriesResponse crypto_two = Ok crypto_two_result"
  by (simp add: UnmarshalCryptoJSON_def crypto_two_def crypto_fields_def
      fresh_CryptoSeriesResponse_def crypto_values_fields crypto_two_result_def crypto_entry_def
      decode_defs Parse_date_0908 Parse_date_0907 ParseFloat_330 ParseFloat_329
      by_C_Timestamp_def Before_date_time)

text \<open>
  Claim C3. Whenever a decode succeeds, the sequence it leaves is non-decreasing in
  timestamp: no entry is before its predecessor. This holds of the intraday decoder, of
  the six decoders of the daily, weekly and monthly series (stated for the daily one and
  for their common body, with a library sort that sorts), of the indicator decoder and of
  the crypto decoder.
\<close>

theorem decoded_sequences_nondecreasing:
  "(TimeSeriesIntraday_UnmarshalJSON t d1 = Ok t' \<longrightarrow>
      nondecreasing (map Timestamp (TimeSeries t'))) \<and>
   (sorts Slice by_Timestamp \<longrightarrow> TimeSeriesDaily_UnmarshalJSON Slice ts d2 = Ok ts' \<longrightarrow>
      nondecreasing (map Timestamp (TimeSeries ts'))) \<and>
   (sorts Slice' by_Timestamp \<longrightarrow>
      series_UnmarshalJSON Slice' seriesKey field zero s d3 = Ok s' \<longrightarrow>
      nondecreasing (map Timestamp (TimeSeries s'))) \<and>
   (UnmarshalIndicatorJSON i d4 indicatorName = Ok i' \<longrightarrow>
      nondecreasing (map IV_Timestamp (IndicatorValues i'))) \<and>
   (UnmarshalCryptoJSON c d5 = Ok c' \<longrightarrow>
      nondecreasing (map C_Timestamp (C_TimeSeries c')))"
  using intraday_nondecreasing [of t d1 t']
    series_nondecreasing [of Slice' seriesKey field zero s d3 s']
    series_nondecreasing [of Slice "''Time Series (Daily)''" OHLCV_field zero_OHLCV ts d2 ts']
    indicator_nondecreasing [of i d4 indicatorName i'] crypto_nondecreasing [of c d5 c']
  unfolding TimeSeriesDaily_UnmarshalJSON_def by blast

theorem decoded_sequences_nondecreasing_witness:
  "TimeSeriesIntraday_UnmarshalJSON fresh_TimeSeries intraday_two = Ok intraday_two_result \<and>
   nondecreasing (map Timestamp (TimeSeries intraday_two_result)) \<and>
   sorts SliceStable (by_Timestamp :: OHLCV \<Rightarrow> OHLCV \<Rightarrow> bool) \<and>
   TimeSeriesDaily_UnmarshalJSON SliceStable fresh_TimeSeries daily_two = Ok daily_two_result \<and>
   series_UnmarshalJSON SliceStable ''Time Series (Daily)'' OHLCV_field zero_OHLCV
     fresh_TimeSeries daily_two = Ok daily_two_result \<and>
   nondecreasing (map Timestamp (TimeSeries daily_two_result)) \<and>
   UnmarshalIndicatorJSON fresh_IndicatorResponse indicator_SMA ''SMA''
     = Ok indicator_SMA_result \<and>
   nondecreasing (map IV_Timestamp (IndicatorValues indicator_SMA_result)) \<and>
   UnmarshalCryptoJSON fresh_CryptoSeriesResponse crypto_two = Ok crypto_two_result \<and>
   nondecreasing (map C_Timestamp (C_TimeSeries crypto_two_result))"
proof -
  note s = sorts_SliceStable [where ?'a = unit]
  show ?thesis
    using s intraday_two_decoded daily_two_decoded series_two_decoded indicator_SMA_decoded
      crypto_two_decoded
      decoded_sequences_nondecreasing
      [where Slice = SliceStable and Slice' = SliceStable and zero = zero_OHLCV
        and t = fresh_TimeSeries and ?d1.0 = intraday_two and t' = intraday_two_result
        and ts = fresh_TimeSeries and ?d2.0 = daily_two and ts' = daily_two_result
        and seriesKey = "''Time Series (Daily)''" and field = OHLCV_field
        and s = fresh_TimeSeries and ?d3.0 = daily_two and s' = daily_two_result
        and i = fresh_IndicatorResponse and ?d4.0 = indicator_SMA
        and indicatorName = "''SMA''" and i' = indicator_SMA_result
        and c = fresh_CryptoSeriesResponse and ?d5.0 = crypto_two and c' = crypto_two_result]
    by simp
qed

subsection \<open>Dates are read one to one\<close>

lemma isDigit_bounds: "isDigit c \<longleftrightarrow> 48 \<le> (of_char c :: nat) \<and> (of_char c :: nat) \<le> 57"
  by (simp add: isDigit_def less_eq_char_def)

lemma digit_less: "isDigit c \<Longrightarrow> digit c < 10"
  by (auto simp: isDigit_bounds digit_def)

lemma digit_inject: "isDigit a \<Longrightarrow> isDigit b \<Longrightarrow> digit a = digit b \<Longrightarrow> a = b"
proof -
  assume "isDigit a" "isDigit b" "digit a = digit b"
  then have "48 \<le> (of_char a :: nat)" "48 \<le> (of_char b :: nat)"
      "(of_char a :: nat) - 48 = of_char b - 48"
    by (simp_all add: isDigit_bounds digit_def)
  then have "(of_char a :: nat) = of_char b" by arith
  then show "a = b" by simp
qed

lemma digits_value_snoc: "digits_value (ds @ [c]) = 10 * digits_value ds + digit c"
  by (simp add: digits_value_def)

lemma digits_value_inject:
  "list_all isDigit a \<Longrightarrow> list_all isDigit b \<Longrightarrow> length a = length b \<Longrightarrow>
   digits_value a = digits_value b \<Longrightarrow> a = b"
proof (induction a arbitrary: b rule: rev_induct)
  case Nil
  then show ?case by simp
next
  case (snoc x xs)
  from snoc.prems(3) obtain y ys where b: "b = ys @ [y]"
    by (cases b rule: rev_cases) auto
  have dx: "digit x < 10" and dy: "digit y < 10"
    using snoc.prems(1,2) b by (auto intro: digit_less)
  have e: "10 * digits_value xs + digit x = 10 * digits_value ys + digit y"
    using snoc.prems(4) b by (simp add: digits_value_snoc)
  have v: "digits_value xs = digits_value ys" and d: "digit x = digit y"
    using e dx dy by arith+
  have "xs = ys"
    using snoc.IH [of ys] snoc.prems b v by simp
  moreover have "x = y"
    using d snoc.prems(1,2) b by (auto intro: digit_inject)
  ultimately show ?case using b by simp
qed

lemma two_digits_inject:
  "p < 10 \<Longrightarrow> q < 10 \<Longrightarrow> x * 10 + p = y * 10 + q \<Longrightarrow> x = y \<and> p = (q::nat)"
  by arith

lemma getnum_fixed:
  assumes "getnum s True = Some (n, r)"
  shows "\<exists>a b. s = a # b # r \<and> isDigit a \<and> isDigit b \<and> n = digit a * 10 + digit b"
proof (cases s)
  case Nil
  then show ?thesis using assms by simp
next
  case (Cons a s1)
  show ?thesis
  proof (cases s1)
    case Nil
    then show ?thesis using assms Cons by (simp split: if_splits)
  next
    case (Cons b s2)
    then show ?thesis using assms \<open>s = a # s1\<close> by (simp split: if_splits)
  qed
qed

lemma getnum_fixed_inject:
  assumes "getnum s True = Some (n, r)" and "getnum s' True = Some (n, r')"
  shows "\<exists>p. length p = 2 \<and> s = p @ r \<and> s' = p @ r'"
proof -
  obtain a b where s: "s = a # b # r" "isDigit a" "isDigit b" "n = digit a * 10 + digit b"
    using getnum_fixed [OF assms(1)] by blast
  obtain a' b' where s': "s' = a' # b' # r'" "isDigit a'" "isDigit b'" "n = digit a' * 10 + digit b'"
    using getnum_fixed [OF assms(2)] by blast
  have "digit b < 10" "digit b' < 10" using s(3) s'(3) by (simp_all add: digit_less)
  moreover have "digit a * 10 + digit b = digit a' * 10 + digit b'" using s(4) s'(4) by simp
  ultimately have "digit a = digit a' \<and> digit b = digit b'" by (rule two_digits_inject)
  then have "a = a'" "b = b'" using s(2,3) s'(2,3) by (simp_all add: digit_inject)
  then have "s = [a, b] @ r" "s' = [a, b] @ r'" using s(1) s'(1) by simp_all
  then show ?thesis by (intro exI [of _ "[a, b]"]) simp
qed

lemma getyear_inject:
  assumes "getyear s = Some (y, r)" and "getyear s' = Some (y, r')"
  shows "\<exists>p. length p = 4 \<and> s = p @ r \<and> s' = p @ r'"
proof -
  have s: "4 \<le> length s" "list_all isDigit (take 4 s)" "y = digits_value (take 4 s)" "r = drop 4 s"
    using assms(1) by (simp_all add: getyear_def split: if_splits)
  have s': "4 \<le> length s'" "list_all isDigit (take 4 s')" "y = digits_value (take 4 s')"
      "r' = drop 4 s'"
    using assms(2) by (simp_all add: getyear_def split: if_splits)
  have l: "length (take 4 s) = length (take 4 s')" using s(1) s'(1) by simp
  have v: "digits_value (take 4 s) = digits_value (take 4 s')" using s(3) s'(3) by simp
  have e: "take 4 s = take 4 s'"
    using s(2) s'(2) l v by (rule digits_value_inject)
  have "s = take 4 s @ drop 4 s" "s' = take 4 s' @ drop 4 s'"
    by (rule append_take_drop_id [symmetric])+
  then have "s = take 4 s @ r" "s' = take 4 s @ r'"
    unfolding s(4) s'(4) e [symmetric] .
  moreover have "length (take 4 s) = 4" using s(1) by simp
  ultimately show ?thesis by blast
qed

lemma skip_char_Some: "skip_char c s = Some r \<Longrightarrow> s = c # r"
  by (cases s) (simp_all split: if_splits)

lemma parse_ymd_Some:
  assumes "parse_ymd s = Some ((y, m, d), r)"
  shows "\<exists>s1 s2 s3 s4. getyear s = Some (y, s1) \<and> skip_char (CHR ''-'') s1 = Some s2 \<and>
     getnum s2 True = Some (m, s3) \<and> skip_char (CHR ''-'') s3 = Some s4 \<and>
     getnum s4 True = Some (d, r)"
proof -
  obtain y' s1 where 1: "getyear s = Some (y', s1)"
    using assms by (cases "getyear s") (auto simp: parse_ymd_def)
  obtain s2 where 2: "skip_char (CHR ''-'') s1 = Some s2"
    using assms 1 by (cases "skip_char (CHR ''-'') s1") (auto simp: parse_ymd_def)
  obtain m' s3 where 3: "getnum s2 True = Some (m', s3)"
    using assms 1 2 by (cases "getnum s2 True") (auto simp: parse_ymd_def)
  have m: "\<not> (m' = 0 \<or> 12 < m')"
    using assms 1 2 3 by (auto simp: parse_ymd_def split: if_splits)
  obtain s4 where 4: "skip_char (CHR ''-'') s3 = Some s4"
    using assms 1 2 3 m by (cases "skip_char (CHR ''-'') s3") (auto simp: parse_ymd_def)
  obtain d' r' where 5: "getnum s4 True = Some (d', r')"
    using assms 1 2 3 m 4 by (cases "getnum s4 True") (auto simp: parse_ymd_def)
  have "y' = y \<and> m' = m \<and> d' = d \<and> r' = r"
    using assms 1 2 3 m 4 5 by (simp add: parse_ymd_def split: if_splits)
  then show ?thesis using 1 2 3 4 5 by simp
qed

lemma parse_ymd_inject:
  assumes "parse_ymd s = Some (v, r)" and "parse_ymd s' = Some (v, r')"
  shows "\<exists>p. s = p @ r \<and> s' = p @ r'"
proof -
  obtain y m d where v: "v = (y, m, d)" by (cases v) auto
  obtain s1 s2 s3 s4 where
    a: "getyear s = Some (y, s1)" "skip_char (CHR ''-'') s1 = Some s2"
       "getnum s2 True = Some (m, s3)" "skip_char (CHR ''-'') s3 = Some s4"
       "getnum s4 True = Some (d, r)"
    using parse_ymd_Some [OF assms(1) [unfolded v]] by blast
  obtain t1 t2 t3 t4 where
    b: "getyear s' = Some (y, t1)" "skip_char (CHR ''-'') t1 = Some t2"
       "getnum t2 True = Some (m, t3)" "skip_char (CHR ''-'') t3 = Some t4"
       "getnum t4 True = Some (d, r')"
    using parse_ymd_Some [OF assms(2) [unfolded v]] by blast
  obtain p1 where p1: "s = p1 @ s1" "s' = p1 @ t1"
    using getyear_inject [OF a(1) b(1)] by blast
  have q1: "s1 = CHR ''-'' # s2" "t1 = CHR ''-'' # t2"
    using a(2) b(2) by (auto dest: skip_char_Some)
  obtain p2 where p2: "s2 = p2 @ s3" "t2 = p2 @ t3"
    using getnum_fixed_inject [OF a(3) b(3)] by blast
  have q2: "s3 = CHR ''-'' # s4" "t3 = CHR ''-'' # t4"
    using a(4) b(4) by (auto dest: skip_char_Some)
  obtain p3 where p3: "s4 = p3 @ r" "t4 = p3 @ r'"
    using getnum_fixed_inject [OF a(5) b(5)] by blast
  show ?thesis
    using p1 q1 p2 q2 p3
    by (intro exI [of _ "p1 @ CHR ''-'' # p2 @ CHR ''-'' # p3"]) simp
qed

lemma Parse_date_inject:
  assumes "Parse_date s = Some t" and "Parse_date s' = Some t"
  shows "s = s'"
proof -
  obtain v where a: "parse_ymd s = Some (v, [])"
    using assms(1) by (auto simp: Parse_date_def split: option.splits if_splits prod.splits)
  obtain v' where b: "parse_ymd s' = Some (v', [])"
    using assms(2) by (auto simp: Parse_date_def split: option.splits if_splits prod.splits)
  have "v = v'"
    using assms a b by (cases v, cases v') (auto simp: Parse_date_def)
  then show ?thesis
    using parse_ymd_inject [OF a, of s' "[]"] b by auto
qed

lemma decode_map_distinct:
  "decode_map elem zero kvs m = Inr m' \<Longrightarrow> distinct (map fst m) \<Longrightarrow> distinct (map fst m')"
proof (induction kvs arbitrary: m)
  case Nil
  then show ?case by simp
next
  case (Cons kv kvs)
  obtain k v where kv: "kv = (k, v)" by (cases kv) auto
  from Cons.prems(1) obtain x where x: "elem v zero = Inr x"
    and r: "decode_map elem zero kvs (AList.update k x m) = Inr m'"
    unfolding kv by (cases "elem v zero") simp_all
  have "distinct (map fst (AList.update k x m))"
    using Cons.prems(2) by (rule distinct_update)
  then show ?case using Cons.IH r by blast
qed

lemma decode_object_invariant:
  assumes "decode_object field kvs s = Inr s'" and "P s"
      and "\<And>k v a b. field k v a = Inr b \<Longrightarrow> P a \<Longrightarrow> P b"
  shows "P s'"
  using assms(1,2)
proof (induction kvs arbitrary: s)
  case Nil
  then show ?case by simp
next
  case (Cons kv kvs)
  obtain k v where kv: "kv = (k, v)" by (cases kv) auto
  from Cons.prems(1) obtain a where a: "field k v s = Inr a"
    and r: "decode_object field kvs a = Inr s'"
    unfolding kv by (cases "field k v s") simp_all
  have "P a" using assms(3) a Cons.prems(2) by blast
  then show ?case using Cons.IH r by blast
qed

lemma aux_field_distinct:
  assumes "aux_field seriesKey field zero k v aux = Inr aux'"
      and "distinct (map fst (fst aux))"
  shows "distinct (map fst (fst aux'))"
proof (cases "field_eq k seriesKey")
  case True
  show ?thesis
  proof (cases v)
    case (JObject kvs)
    then obtain m where "decode_map (decode_struct field) zero kvs (fst aux) = Inr m"
      and "aux' = (m, snd aux)"
      using assms(1) True
      by (cases "decode_map (decode_struct field) zero kvs (fst aux)")
        (auto simp: aux_field_def)
    then show ?thesis using decode_map_distinct assms(2) by fastforce
  qed (use assms True in \<open>auto simp: aux_field_def\<close>)
next
  case False
  then show ?thesis
    using assms
    by (cases "decode_struct TimeSeriesMetaData_field v (snd aux)")
      (auto simp: aux_field_def split: if_splits)
qed

lemma RawTimeSeries_distinct:
  assumes "decode_object (aux_field seriesKey field zero) kvs ([], md0) = Inr (raw, md)"
  shows "distinct (map fst raw)"
proof -
  have "distinct (map fst (fst (raw, md)))"
    using assms
  proof (rule decode_object_invariant [where P = "\<lambda>aux. distinct (map fst (fst aux))"])
    show "distinct (map fst (fst ([], md0)))" by simp
  qed (rule aux_field_distinct)
  then show ?thesis by simp
qed

lemma dated_entries_Timestamps:
  "dated_entries raw acc = Ok xs \<Longrightarrow>
   \<exists>ts. map Parse_date (map fst raw) = map Some ts \<and> map Timestamp xs = map Timestamp acc @ ts"
proof (induction raw arbitrary: acc)
  case Nil
  then show ?case by simp
next
  case (Cons e raw)
  obtain dateStr ohlcv where e: "e = (dateStr, ohlcv)" by (cases e) auto
  from Cons.prems obtain t where t: "Parse_date dateStr = Some t"
    and r: "dated_entries raw (acc @ [ohlcv\<lparr>Timestamp := t\<rparr>]) = Ok xs"
    unfolding e by (cases "Parse_date dateStr") simp_all
  from Cons.IH [OF r] obtain ts where
    ts: "map Parse_date (map fst raw) = map Some ts"
        "map Timestamp xs = map Timestamp (acc @ [ohlcv\<lparr>Timestamp := t\<rparr>]) @ ts"
    by blast
  show ?case
    using ts t e by (intro exI [of _ "t # ts"]) simp
qed

lemma distinct_parsed:
  assumes "map f ks = map Some ts" and "distinct ks"
      and "\<And>a b t. f a = Some t \<Longrightarrow> f b = Some t \<Longrightarrow> a = b"
  shows "distinct ts"
proof -
  have "inj_on f (set ks)"
  proof (rule inj_onI)
    fix a b assume a: "a \<in> set ks" and "b \<in> set ks" and eq: "f a = f b"
    from a have "f a \<in> set (map f ks)" by simp
    then obtain t where "f a = Some t" unfolding assms(1) by auto
    then show "a = b" using eq assms(3) by metis
  qed
  then have "distinct (map f ks)" using assms(2) by (simp add: distinct_map)
  then have "distinct (map Some ts)" using assms(1) by simp
  then show ?thesis by (simp add: distinct_map)
qed

lemma dated_entries_distinct:
  assumes "dated_entries raw [] = Ok xs" and "distinct (map fst raw)"
  shows "distinct (map Timestamp xs)"
proof -
  have ts: "map Parse_date (map fst raw) = map Some (map Timestamp xs)"
    using dated_entries_Timestamps [OF assms(1)] by auto
  show ?thesis
    using ts assms(2) by (rule distinct_parsed) (rule Parse_date_inject)
qed

lemma filter_at_most_one:
  "distinct (map g xs) \<Longrightarrow> length (filter (\<lambda>e. g e = k) xs) \<le> 1"
proof (induction xs)
  case Nil
  then show ?case by simp
next
  case (Cons x xs)
  show ?case
  proof (cases "g x = k")
    case True
    have "g x \<notin> g ` set xs" using Cons.prems by simp
    then have "\<forall>e\<in>set xs. g e \<noteq> k" using True by blast
    then have "filter (\<lambda>e. g e = k) xs = []"
      by (simp add: filter_empty_conv)
    then show ?thesis using True by simp
  next
    case False
    then show ?thesis using Cons by simp
  qed
qed

lemma mset_eq_short:
  assumes "mset ys = mset xs" and "length xs \<le> 1"
  shows "ys = xs"
proof (cases xs)
  case Nil
  then show ?thesis using assms(1) by simp
next
  case (Cons x xs')
  then have xs: "xs = [x]" using assms(2) by simp
  then have "mset ys = {#x#}" using assms(1) by simp
  then show ?thesis using xs by simp
qed

lemma permutation_keeps_distinct_ties:
  assumes "mset ys = mset xs" and "distinct (map g xs)"
  shows "filter (\<lambda>e. g e = k) ys = filter (\<lambda>e. g e = k) xs"
proof (rule mset_eq_short)
  show "mset (filter (\<lambda>e. g e = k) ys) = mset (filter (\<lambda>e. g e = k) xs)"
    using assms(1) by simp
  show "length (filter (\<lambda>e. g e = k) xs) \<le> 1"
    using assms(2) by (rule filter_at_most_one)
qed

lemma same_instant_eq: "same_instant t u \<longleftrightarrow> t = u"
  by (simp add: same_instant_key time_key_inject)

lemma intraday_stable:
  assumes "TimeSeriesIntraday_UnmarshalJSON t data = Ok t'"
  shows "\<exists>raw xs. Unmarshal_raw data = Inr raw \<and> intraday_series raw (TimeSeries t) = Ok xs \<and>
           (\<forall>u. filter (\<lambda>e. same_instant (Timestamp e) u) (TimeSeries t')
                = filter (\<lambda>e. same_instant (Timestamp e) u) xs)"
proof -
  obtain raw where raw: "Unmarshal_raw data = Inr raw"
    using assms by (cases "Unmarshal_raw data") (simp_all add: TimeSeriesIntraday_UnmarshalJSON_def)
  obtain md xs where xs: "intraday_series raw (TimeSeries t) = Ok xs"
    and t': "t' = \<lparr>MetaData = md, TimeSeries = SliceStable by_Timestamp xs\<rparr>"
    using assms raw
    by (auto simp: TimeSeriesIntraday_UnmarshalJSON_def and_then_def split: result.splits)
  { fix u
    have "filter (\<lambda>e. time_key (Timestamp e) = time_key u)
            (sort_key (\<lambda>a. time_key (Timestamp a)) xs)
        = filter (\<lambda>e. time_key (Timestamp e) = time_key u) xs"
      by (rule sort_key_stable)
    then have "filter (\<lambda>e. same_instant (Timestamp e) u) (TimeSeries t')
             = filter (\<lambda>e. same_instant (Timestamp e) u) xs"
      by (simp add: t' SliceStable_by_Timestamp same_instant_key) }
  then show ?thesis using raw xs by blast
qed

lemma series_stable:
  assumes "sorts Slice by_Timestamp"
      and "series_UnmarshalJSON Slice seriesKey field zero ts data = Ok ts'"
  shows "\<exists>kvs raw md xs. data = Some (JObject kvs) \<and>
           decode_object (aux_field seriesKey field zero) kvs ([], MetaData ts) = Inr (raw, md) \<and>
           dated_entries raw [] = Ok xs \<and>
           (\<forall>u. filter (\<lambda>e. same_instant (Timestamp e) u) (TimeSeries ts')
                = filter (\<lambda>e. same_instant (Timestamp e) u) xs)"
proof -
  obtain kvs where kvs: "data = Some (JObject kvs)"
    using assms(2) by (auto simp: series_UnmarshalJSON_def split: option.splits json.splits)
  obtain raw md where raw:
    "decode_object (aux_field seriesKey field zero) kvs ([], MetaData ts) = Inr (raw, md)"
    using assms(2) kvs
    by (cases "decode_object (aux_field seriesKey field zero) kvs ([], MetaData ts)")
      (auto simp: series_UnmarshalJSON_def)
  obtain xs where xs: "dated_entries raw [] = Ok xs"
    and ts': "ts' = \<lparr>MetaData = md, TimeSeries = Slice by_Timestamp xs\<rparr>"
    using assms(2) kvs raw
    by (auto simp: series_UnmarshalJSON_def and_then_def split: result.splits)
  have d: "distinct (map Timestamp xs)"
    using xs RawTimeSeries_distinct [OF raw] by (rule dated_entries_distinct)
  have m: "mset (Slice by_Timestamp xs) = mset xs"
    using assms(1) by (simp add: sorts_def)
  { fix u
    have "filter (\<lambda>e. Timestamp e = u) (Slice by_Timestamp xs)
        = filter (\<lambda>e. Timestamp e = u) xs"
      using m d by (rule permutation_keeps_distinct_ties)
    then have "filter (\<lambda>e. same_instant (Timestamp e) u) (TimeSeries ts')
             = filter (\<lambda>e. same_instant (Timestamp e) u) xs"
      by (simp add: ts' same_instant_eq) }
  then show ?thesis using kvs raw xs by blast
qed

lemma Parse_second_930: "Parse_second ''2023-09-08 9:30:00'' = Some (date_time 2023 9 8 9 30)"
  by (simp add: parse_defs date_time_def)

lemma Parse_second_0930: "Parse_second ''2023-09-08 09:30:00'' = Some (date_time 2023 9 8 9 30)"
  by (simp add: parse_defs date_time_def)

lemma intraday_tie_decoded:
  "TimeSeriesIntraday_UnmarshalJSON fresh_TimeSeries intraday_tie = Ok intraday_tie_result"
  by (simp add: TimeSeriesIntraday_UnmarshalJSON_def intraday_tie_def fresh_TimeSeries_def
      intraday_tie_result_def decode_defs Parse_second_930 Parse_second_0930
      ParseFloat_330 ParseFloat_329 by_Timestamp_def Before_date_time)

text \<open>
  Claim C5. The final sort of a time-series decode leaves entries whose timestamps compare
  equal in the order in which the loop appended them: for every instant, the entries at
  that instant are the same list before and after the sort. For the intraday decoder this
  is the stability of \<^verbatim>\<open>sort.SliceStable\<close>. The six other decoders call \<^verbatim>\<open>sort.Slice\<close>,
  which is not stable; there the entries come from the keys of one map through a date
  layout that reads one to one, so no two of them compare equal and any sort keeps them.
\<close>

theorem final_sort_keeps_ties_in_appended_order:
  "(TimeSeriesIntraday_UnmarshalJSON t d1 = Ok t' \<longrightarrow>
      (\<exists>raw xs. Unmarshal_raw d1 = Inr raw \<and> intraday_series raw (TimeSeries t) = Ok xs \<and>
         (\<forall>u. filter (\<lambda>e. same_instant (Timestamp e) u) (TimeSeries t')
              = filter (\<lambda>e. same_instant (Timestamp e) u) xs))) \<and>
   (sorts Slice by_Timestamp \<longrightarrow> TimeSeriesDaily_UnmarshalJSON Slice ts d2 = Ok ts' \<longrightarrow>
      (\<exists>kvs raw md xs. d2 = Some (JObject kvs) \<and>
         decode_object (aux_field ''Time Series (Daily)'' OHLCV_field zero_OHLCV) kvs
           ([], MetaData ts) = Inr (raw, md) \<and>
         dated_entries raw [] = Ok xs \<and>
         (\<forall>u. filter (\<lambda>e. same_instant (Timestamp e) u) (TimeSeries ts')
              = filter (\<lambda>e. same_instant (Timestamp e) u) xs))) \<and>
   (sorts Slice' by_Timestamp \<longrightarrow>
      series_UnmarshalJSON Slice' seriesKey field zero s d3 = Ok s' \<longrightarrow>
      (\<exists>kvs raw md xs. d3 = Some (JObject kvs) \<and>
         decode_object (aux_field seriesKey field zero) kvs ([], MetaData s) = Inr (raw, md) \<and>
         dated_entries raw [] = Ok xs \<and>
         (\<forall>u. filter (\<lambda>e. same_instant (Timestamp e) u) (TimeSeries s')
              = filter (\<lambda>e. same_instant (Timestamp e) u) xs)))"
  using intraday_stable [of t d1 t']
    series_stable [of Slice "''Time Series (Daily)''" OHLCV_field zero_OHLCV ts d2 ts']
    series_stable [of Slice' seriesKey field zero s d3 s']
  unfolding TimeSeriesDaily_UnmarshalJSON_def by blast

theorem final_sort_keeps_ties_in_appended_order_witness:
  "TimeSeriesIntraday_UnmarshalJSON fresh_TimeSeries intraday_tie = Ok intraday_tie_result \<and>
   (\<exists>raw xs. Unmarshal_raw intraday_tie = Inr raw \<and>
      intraday_series raw (TimeSeries fresh_TimeSeries) = Ok xs \<and>
      (\<forall>u. filter (\<lambda>e. same_instant (Timestamp e) u) (TimeSeries intraday_tie_result)
           = filter (\<lambda>e. same_instant (Timestamp e) u) xs)) \<and>
   sorts SliceStable (by_Timestamp :: OHLCV \<Rightarrow> OHLCV \<Rightarrow> bool) \<and>
   TimeSeriesDaily_UnmarshalJSON SliceStable fresh_TimeSeries daily_two = Ok daily_two_result \<and>
   (\<exists>kvs raw md xs. daily_two = Some (JObject kvs) \<and>
      decode_object (aux_field ''Time Series (Daily)'' OHLCV_field zero_OHLCV) kvs
        ([], MetaData (fresh_TimeSeries :: TimeSeriesDaily)) = Inr (raw, md) \<and>
      dated_entries raw [] = Ok xs \<and>
      (\<forall>u. filter (\<lambda>e. same_instant (Timestamp e) u) (TimeSeries daily_two_result)
           = filter (\<lambda>e. same_instant (Timestamp e) u) xs))"
proof -
  note s = sorts_SliceStable [where ?'a = unit]
  note w = final_sort_keeps_ties_in_appended_order
    [where t = fresh_TimeSeries and ?d1.0 = intraday_tie and t' = intraday_tie_result
       and Slice = SliceStable and ts = fresh_TimeSeries and ?d2.0 = daily_two
       and ts' = daily_two_result
       and Slice' = SliceStable and seriesKey = "''Time Series (Daily)''"
       and field = OHLCV_field and zero = zero_OHLCV and s = fresh_TimeSeries
       and ?d3.0 = daily_two and s' = daily_two_result]
  note c1 = mp [OF conjunct1 [OF w] intraday_tie_decoded]
  note c2 = mp [OF mp [OF conjunct1 [OF conjunct2 [OF w]] s] daily_two_decoded]
  show ?thesis
    using s intraday_tie_decoded daily_two_decoded c1 c2 by (intro conjI)
qed

subsection \<open>Payloads without the expected keys\<close>

lemma SliceStable_Nil: "SliceStable lt [] = []"
  by (simp add: SliceStable_def)

lemma sorts_Nil: "sorts Slice lt \<Longrightarrow> Slice lt [] = []"
proof -
  assume "sorts Slice lt"
  then have "mset (Slice lt []) = mset []" unfolding sorts_def by blast
  then show ?thesis by simp
qed

lemma intraday_series_no_key:
  "\<forall>kv\<in>set raw. \<not> HasPrefix (fst kv) ''Time Series'' \<Longrightarrow> intraday_series raw ts = Ok ts"
  by (induction raw) auto

lemma crypto_series_no_key:
  "\<forall>kv\<in>set raw. \<not> HasPrefix (fst kv) ''Time Series'' \<Longrightarrow> crypto_series raw st = Ok st"
  by (induction raw) auto

lemma aux_no_field:
  "\<forall>kv\<in>set kvs. \<not> field_eq (fst kv) seriesKey \<and> \<not> field_eq (fst kv) ''Meta Data'' \<Longrightarrow>
   decode_object (aux_field seriesKey field zero) kvs aux = Inr aux"
  by (induction kvs) (auto simp: aux_field_def)

lemma intraday_missing_keys:
  assumes "Unmarshal_raw data = Inr raw"
      and "\<forall>md. map_of raw ''Meta Data'' \<noteq> Some (JObject md)"
      and "\<forall>kv\<in>set raw. \<not> HasPrefix (fst kv) ''Time Series''"
  shows "TimeSeriesIntraday_UnmarshalJSON t data
         = Ok (t\<lparr>TimeSeries := SliceStable by_Timestamp (TimeSeries t)\<rparr>)"
proof -
  have m: "(case map_of raw ''Meta Data'' of
              Some (JObject metaData) \<Rightarrow> intraday_MetaData metaData (MetaData t)
            | _ \<Rightarrow> Ok (MetaData t)) = Ok (MetaData t)"
    using assms(2) by (auto split: option.splits json.splits)
  show ?thesis
    unfolding TimeSeriesIntraday_UnmarshalJSON_def
    by (simp add: assms(1) m and_then_Ok intraday_series_no_key [OF assms(3)])
qed

lemma series_missing_keys:
  assumes "sorts Slice by_Timestamp"
      and "\<forall>kv\<in>set kvs. \<not> field_eq (fst kv) seriesKey \<and> \<not> field_eq (fst kv) ''Meta Data''"
  shows "series_UnmarshalJSON Slice seriesKey field zero ts (Some (JObject kvs))
         = Ok (ts\<lparr>TimeSeries := []\<rparr>)"
  unfolding series_UnmarshalJSON_def
  by (simp add: aux_no_field [OF assms(2)] and_then_Ok sorts_Nil [OF assms(1)])

lemma indicator_missing_key_no_error:
  assumes "Unmarshal_raw data = Inr raw"
      and "\<forall>x. map_of raw (expectedKey indicatorName) \<noteq> Some (JObject x)"
  shows "(\<exists>md. UnmarshalIndicatorJSON i data indicatorName
            = Ok \<lparr>I_MetaData = md,
                  IndicatorValues = SliceStable by_IV_Timestamp (IndicatorValues i)\<rparr>)
         \<or> (\<exists>p. UnmarshalIndicatorJSON i data indicatorName = Panic p)"
proof -
  have v: "(case map_of raw (expectedKey indicatorName) of
              Some (JObject tsData) \<Rightarrow> indicator_entries tsData (IndicatorValues i)
            | _ \<Rightarrow> Ok (IndicatorValues i)) = Ok (IndicatorValues i)"
    using assms(2) by (auto split: option.splits json.splits)
  have e: "\<And>rawData md. extractMetaData_range rawData md \<noteq> Error err" for err
  proof -
    fix rawData md
    show "extractMetaData_range rawData md \<noteq> Error err"
      by (induction rawData md rule: extractMetaData_range.induct)
        (auto simp: and_then_def assert_string_def assert_float64_def
          split: result.splits option.splits json.splits)
  qed
  show ?thesis
    unfolding UnmarshalIndicatorJSON_def
    using e [of _ zero_TimeSeriesMetaData]
    by (auto simp: assms(1) v and_then_def extractMetaData_def
        split: result.splits option.splits json.splits)
qed

lemma indicator_missing_keys:
  assumes "Unmarshal_raw data = Inr raw"
      and "\<forall>md. map_of raw ''Meta Data'' \<noteq> Some (JObject md)"
      and "\<forall>x. map_of raw (expectedKey indicatorName) \<noteq> Some (JObject x)"
  shows "UnmarshalIndicatorJSON i data indicatorName
         = Ok (i\<lparr>IndicatorValues := SliceStable by_IV_Timestamp (IndicatorValues i)\<rparr>)"
proof -
  have m: "(case map_of raw ''Meta Data'' of
              Some (JObject metaData) \<Rightarrow> extractMetaData metaData
            | _ \<Rightarrow> Ok (I_MetaData i)) = Ok (I_MetaData i)"
    using assms(2) by (auto split: option.splits json.splits)
  have v: "(case map_of raw (expectedKey indicatorName) of
              Some (JObject tsData) \<Rightarrow> indicator_entries tsData (IndicatorValues i)
            | _ \<Rightarrow> Ok (IndicatorValues i)) = Ok (IndicatorValues i)"
    using assms(3) by (auto split: option.splits json.splits)
  show ?thesis
    unfolding UnmarshalIndicatorJSON_def
    by (simp add: assms(1) m v and_then_Ok)
qed

lemma crypto_missing_keys:
  assumes "Unmarshal_raw data = Inr raw"
      and "\<forall>md. map_of raw ''Meta Data'' \<noteq> Some (JObject md)"
      and "\<forall>kv\<in>set raw. \<not> HasPrefix (fst kv) ''Time Series''"
  shows "UnmarshalCryptoJSON c data
         = Ok (c\<lparr>C_TimeSeries := SliceStable by_C_Timestamp (C_TimeSeries c)\<rparr>)"
proof -
  have m: "(case map_of raw ''Meta Data'' of
              Some (JObject metaData) \<Rightarrow> extractCryptoMetaData metaData
            | _ \<Rightarrow> Ok (C_MetaData c)) = Ok (C_MetaData c)"
    using assms(2) by (auto split: option.splits json.splits)
  show ?thesis
    unfolding UnmarshalCryptoJSON_def
    by (simp add: assms(1) m and_then_Ok crypto_series_no_key [OF assms(3)])
qed

lemma scenario_C_decoded:
  "UnmarshalIndicatorJSON fresh_IndicatorResponse scenario_C ''SMA'' = Ok fresh_IndicatorResponse"
  by (simp add: UnmarshalIndicatorJSON_def scenario_C_def fresh_IndicatorResponse_def decode_defs)

lemma rate_limited_raw:
  "Unmarshal_raw rate_limited = Inr [(''Note'', JString ''Thank you for using Alpha Vantage!'')]"
  by (simp add: rate_limited_def Unmarshal_raw_def go_map_def)

text \<open>
  Claim C1, as amended. The claim says that a payload without the required top-level key
  makes the decode return an error; no decoder has such a check. The intraday and the
  crypto decoder: when \<^verbatim>\<open>json.Unmarshal\<close> accepts the payload, the value under
  \<^verbatim>\<open>Meta Data\<close> is missing or is not an object, and no key starts with \<^verbatim>\<open>Time Series\<close>,
  the decode succeeds and adds no entry: the receiver comes back with its sequence
  sorted. The daily, weekly and monthly decoders, whatever their series key: when the
  payload is an object none of whose keys is \<^verbatim>\<open>Meta Data\<close> or the series key, as
  \<^verbatim>\<open>encoding/json\<close> compares the names of struct fields, the decode succeeds with the
  sequence empty. The indicator decoder: when \<^verbatim>\<open>json.Unmarshal\<close> accepts the payload and
  the value under \<^verbatim>\<open>Technical Analysis: \<close> and the indicator name is missing or is not
  an object, the decode returns no error; when moreover the value under \<^verbatim>\<open>Meta Data\<close> is
  missing or is not an object, it succeeds and adds no entry. For the fresh receiver that
  the client passes the result is the zero value.
\<close>

theorem missing_top_level_key_is_no_error:
  "(Unmarshal_raw da = Inr rawa \<longrightarrow>
      (\<forall>md. map_of rawa ''Meta Data'' \<noteq> Some (JObject md)) \<longrightarrow>
      (\<forall>kv\<in>set rawa. \<not> HasPrefix (fst kv) ''Time Series'') \<longrightarrow>
      TimeSeriesIntraday_UnmarshalJSON t da
        = Ok (t\<lparr>TimeSeries := SliceStable by_Timestamp (TimeSeries t)\<rparr>)) \<and>
   (sorts Slice by_Timestamp \<longrightarrow>
      (\<forall>kv\<in>set kvsb. \<not> field_eq (fst kv) ''Time Series (Daily)'' \<and>
                      \<not> field_eq (fst kv) ''Meta Data'') \<longrightarrow>
      TimeSeriesDaily_UnmarshalJSON Slice ts (Some (JObject kvsb))
        = Ok (ts\<lparr>TimeSeries := []\<rparr>)) \<and>
   (sorts Slice' by_Timestamp \<longrightarrow>
      (\<forall>kv\<in>set kvsc. \<not> field_eq (fst kv) seriesKey \<and> \<not> field_eq (fst kv) ''Meta Data'') \<longrightarrow>
      series_UnmarshalJSON Slice' seriesKey field zero s (Some (JObject kvsc))
        = Ok (s\<lparr>TimeSeries := []\<rparr>)) \<and>
   (Unmarshal_raw dd = Inr rawd \<longrightarrow>
      (\<forall>x. map_of rawd (expectedKey indicatorName) \<noteq> Some (JObject x)) \<longrightarrow>
      (\<forall>e. UnmarshalIndicatorJSON i dd indicatorName \<noteq> Error e)) \<and>
   (Unmarshal_raw dd = Inr rawd \<longrightarrow>
      (\<forall>md. map_of rawd ''Meta Data'' \<noteq> Some (JObject md)) \<longrightarrow>
      (\<forall>x. map_of rawd (expectedKey indicatorName) \<noteq> Some (JObject x)) \<longrightarrow>
      UnmarshalIndicatorJSON i dd indicatorName
        = Ok (i\<lparr>IndicatorValues := SliceStable by_IV_Timestamp (IndicatorValues i)\<rparr>)) \<and>
   (Unmarshal_raw de = Inr rawe \<longrightarrow>
      (\<forall>md. map_of rawe ''Meta Data'' \<noteq> Some (JObject md)) \<longrightarrow>
      (\<forall>kv\<in>set rawe. \<not> HasPrefix (fst kv) ''Time Series'') \<longrightarrow>
      UnmarshalCryptoJSON c de
        = Ok (c\<lparr>C_TimeSeries := SliceStable by_C_Timestamp (C_TimeSeries c)\<rparr>))"
proof (intro conjI impI)
  assume "Unmarshal_raw dd = Inr rawd"
    and "\<forall>x. map_of rawd (expectedKey indicatorName) \<noteq> Some (JObject x)"
  then show "\<forall>e. UnmarshalIndicatorJSON i dd indicatorName \<noteq> Error e"
    using indicator_missing_key_no_error [of dd rawd indicatorName i] by auto
qed (simp_all add: intraday_missing_keys series_missing_keys indicator_missing_keys
    crypto_missing_keys TimeSeriesDaily_UnmarshalJSON_def)

text \<open>
  The payload has \<^verbatim>\<open>Technical Analysis: EMA\<close> only and the caller asks for \<^verbatim>\<open>SMA\<close>:
  the decode succeeds with an empty record.
\<close>

theorem missing_indicator_key_counterexample:
  "UnmarshalIndicatorJSON fresh_IndicatorResponse scenario_C ''SMA'' = Ok fresh_IndicatorResponse"
  by (rule scenario_C_decoded)

lemma rate_limited_no_Meta_Data:
  "\<forall>md. map_of [(''Note'', JString ''Thank you for using Alpha Vantage!'')] ''Meta Data''
     \<noteq> Some (JObject md)"
  by simp

lemma rate_limited_no_Time_Series:
  "\<forall>kv\<in>set [(''Note'', JString ''Thank you for using Alpha Vantage!'')].
     \<not> HasPrefix (fst kv) ''Time Series''"
  by (simp add: HasPrefix_def)

lemma rate_limited_no_field:
  "\<forall>kv\<in>set [(''Note'', JString ''Thank you for using Alpha Vantage!'')].
     \<not> field_eq (fst kv) ''Time Series (Daily)'' \<and> \<not> field_eq (fst kv) ''Meta Data''"
  by (simp add: field_eq_def)

lemma rate_limited_no_Technical_Analysis:
  "\<forall>x. map_of [(''Note'', JString ''Thank you for using Alpha Vantage!'')] (expectedKey ''SMA'')
     \<noteq> Some (JObject x)"
  by (simp add: expectedKey_def)

theorem missing_top_level_key_is_no_error_witness:
  "Unmarshal_raw rate_limited = Inr [(''Note'', JString ''Thank you for using Alpha Vantage!'')] \<and>
   TimeSeriesIntraday_UnmarshalJSON fresh_TimeSeries rate_limited = Ok fresh_TimeSeries \<and>
   sorts SliceStable (by_Timestamp :: OHLCV \<Rightarrow> OHLCV \<Rightarrow> bool) \<and>
   TimeSeriesDaily_UnmarshalJSON SliceStable fresh_TimeSeries rate_limited = Ok fresh_TimeSeries \<and>
   series_UnmarshalJSON SliceStable ''Time Series (Daily)'' OHLCV_field zero_OHLCV
     fresh_TimeSeries rate_limited = Ok fresh_TimeSeries \<and>
   (\<forall>e. UnmarshalIndicatorJSON fresh_IndicatorResponse rate_limited ''SMA'' \<noteq> Error e) \<and>
   UnmarshalIndicatorJSON fresh_IndicatorResponse rate_limited ''SMA''
     = Ok fresh_IndicatorResponse \<and>
   UnmarshalCryptoJSON fresh_CryptoSeriesResponse rate_limited = Ok fresh_CryptoSeriesResponse"
proof -
  note s = sorts_SliceStable [where ?'a = unit]
  note w = missing_top_level_key_is_no_error
    [where da = rate_limited and dd = rate_limited and de = rate_limited
       and rawa = "[(''Note'', JString ''Thank you for using Alpha Vantage!'')]"
       and rawd = "[(''Note'', JString ''Thank you for using Alpha Vantage!'')]"
       and rawe = "[(''Note'', JString ''Thank you for using Alpha Vantage!'')]"
       and kvsb = "[(''Note'', JString ''Thank you for using Alpha Vantage!'')]"
       and kvsc = "[(''Note'', JString ''Thank you for using Alpha Vantage!'')]"
       and Slice = SliceStable and Slice' = SliceStable
       and seriesKey = "''Time Series (Daily)''" and field = OHLCV_field and zero = zero_OHLCV
       and t = fresh_TimeSeries and ts = fresh_TimeSeries and s = fresh_TimeSeries
       and i = fresh_IndicatorResponse and indicatorName = "''SMA''"
       and c = fresh_CryptoSeriesResponse]
  show ?thesis
    using w s rate_limited_raw rate_limited_no_Meta_Data rate_limited_no_Time_Series
      rate_limited_no_field rate_limited_no_Technical_Analysis
    by (simp add: fresh_TimeSeries_def fresh_IndicatorResponse_def
        fresh_CryptoSeriesResponse_def SliceStable_Nil rate_limited_def)
qed

subsection \<open>What is left of the receiver\<close>

lemma series_rebuilt:
  "series_UnmarshalJSON Slice seriesKey field zero (ts\<lparr>TimeSeries := xs\<rparr>) data
   = series_UnmarshalJSON Slice seriesKey field zero ts data"
  by (simp add: series_UnmarshalJSON_def split: option.splits json.splits)

lemma intraday_entries_keeps: "intraday_entries tsData acc = Ok xs \<Longrightarrow> set acc \<subseteq> set xs"
proof (induction tsData arbitrary: acc)
  case Nil
  then show ?case by simp
next
  case (Cons e tsData)
  obtain k v where e: "e = (k, v)" by (cases e) auto
  from Cons.prems obtain x where "intraday_entries tsData (acc @ [x]) = Ok xs"
    unfolding e by (auto split: option.splits sum.splits)
  from Cons.IH [OF this] show ?case by simp
qed

lemma intraday_series_keeps: "intraday_series raw acc = Ok xs \<Longrightarrow> set acc \<subseteq> set xs"
proof (induction raw arbitrary: acc)
  case Nil
  then show ?case by simp
next
  case (Cons e raw)
  obtain k v where e: "e = (k, v)" by (cases e) auto
  show ?case
  proof (cases "HasPrefix k ''Time Series''")
    case True
    from Cons.prems True obtain tsData ys where "v = JObject tsData"
      and a: "intraday_entries tsData acc = Ok ys" and b: "intraday_series raw ys = Ok xs"
      unfolding e by (auto simp: and_then_def split: json.splits result.splits)
    from intraday_entries_keeps [OF a] Cons.IH [OF b] show ?thesis by blast
  next
    case False
    then show ?thesis using Cons unfolding e by simp
  qed
qed

lemma intraday_keeps_receiver_entries:
  assumes "TimeSeriesIntraday_UnmarshalJSON t data = Ok t'"
  shows "set (TimeSeries t) \<subseteq> set (TimeSeries t')"
proof -
  obtain raw md xs where "intraday_series raw (TimeSeries t) = Ok xs"
    and "t' = \<lparr>MetaData = md, TimeSeries = SliceStable by_Timestamp xs\<rparr>"
    using assms
    by (auto simp: TimeSeriesIntraday_UnmarshalJSON_def and_then_def
        split: sum.splits result.splits)
  then show ?thesis
    using intraday_series_keeps [of raw "TimeSeries t" xs]
    by (simp add: SliceStable_by_Timestamp)
qed

lemma intraday_used_decoded:
  "TimeSeriesIntraday_UnmarshalJSON used_TimeSeries intraday_two
   = Ok (intraday_two_result\<lparr>TimeSeries := stale_OHLCV # TimeSeries intraday_two_result\<rparr>)"
  by (simp add: TimeSeriesIntraday_UnmarshalJSON_def intraday_two_def used_TimeSeries_def
      stale_OHLCV_def intraday_two_result_def decode_defs Parse_second_1600 Parse_second_1559
      ParseFloat_330 ParseFloat_329 by_Timestamp_def Before_date_time)

lemma indicator_used_decoded:
  "UnmarshalIndicatorJSON used_IndicatorResponse indicator_SMA ''SMA''
   = Ok (indicator_SMA_result
          \<lparr>IndicatorValues := stale_IndicatorValue # IndicatorValues indicator_SMA_result\<rparr>)"
  by (simp add: UnmarshalIndicatorJSON_def indicator_SMA_def used_IndicatorResponse_def
      stale_IndicatorValue_def indicator_SMA_result_def decode_defs Parse_minute_1600
      Parse_minute_1559 ParseFloat_330 ParseFloat_329 by_IV_Timestamp_def Before_date_time)

lemma crypto_used_decoded:
  "UnmarshalCryptoJSON used_CryptoSeriesResponse crypto_two
   = Ok (crypto_two_result
          \<lparr>C_TimeSeries := crypto_entry (date_time 2023 9 1 0 0) (Finite 300)
                             # C_TimeSeries crypto_two_result\<rparr>)"
  by (simp add: UnmarshalCryptoJSON_def crypto_two_def crypto_fields_def
      used_CryptoSeriesResponse_def crypto_values_fields crypto_two_result_def crypto_entry_def
      decode_defs Parse_date_0908 Parse_date_0907 ParseFloat_330 ParseFloat_329
      by_C_Timestamp_def Before_date_time)

text \<open>
  Claim C6. The claim says that the decoded sequence depends on the payload only. The six
  decoders of the daily, weekly and monthly series rebuild it (\<open>series_rebuilt\<close>). The
  intraday, indicator and crypto decoders append to what the receiver holds
  (\<open>intraday_keeps_receiver_entries\<close>): decoding the same payload into a fresh receiver
  and into one that holds an entry gives two different sequences.
\<close>

theorem receiver_entries_survive_decode:
  "TimeSeriesIntraday_UnmarshalJSON fresh_TimeSeries intraday_two = Ok intraday_two_result \<and>
   TimeSeriesIntraday_UnmarshalJSON used_TimeSeries intraday_two
     = Ok (intraday_two_result\<lparr>TimeSeries := stale_OHLCV # TimeSeries intraday_two_result\<rparr>) \<and>
   UnmarshalIndicatorJSON fresh_IndicatorResponse indicator_SMA ''SMA''
     = Ok indicator_SMA_result \<and>
   UnmarshalIndicatorJSON used_IndicatorResponse indicator_SMA ''SMA''
     = Ok (indicator_SMA_result
            \<lparr>IndicatorValues := stale_IndicatorValue # IndicatorValues indicator_SMA_result\<rparr>) \<and>
   UnmarshalCryptoJSON fresh_CryptoSeriesResponse crypto_two = Ok crypto_two_result \<and>
   UnmarshalCryptoJSON used_CryptoSeriesResponse crypto_two
     = Ok (crypto_two_result
            \<lparr>C_TimeSeries := crypto_entry (date_time 2023 9 1 0 0) (Finite 300)
                               # C_TimeSeries crypto_two_result\<rparr>)"
  using intraday_two_decoded intraday_used_decoded indicator_SMA_decoded indicator_used_decoded
    crypto_two_decoded crypto_used_decoded
  by (intro conjI)

subsection \<open>Scenario A\<close>

lemma ParseFloat_335: "ParseFloat ''335.00'' = (Finite 335, None)"
  by (rule ParseFloat_Finite) (simp_all add: float_defs float64_overflow_def)

lemma ParseFloat_334: "ParseFloat ''334.00'' = (Finite 334, None)"
  by (rule ParseFloat_Finite) (simp_all add: float_defs float64_overflow_def)

lemma ParseInt_1000000: "ParseInt ''1000000'' = (1000000, None)"
  by (simp add: ParseInt_def isDigit_def digits_value_def digit_def)

lemma sorts_single: "sorts Slice lt \<Longrightarrow> Slice lt [x] = [x]"
proof -
  assume "sorts Slice lt"
  then have "mset (Slice lt [x]) = mset [x]" unfolding sorts_def by blast
  then show ?thesis by simp
qed

lemma scenario_A_MetaData_decoded:
  "decode_struct TimeSeriesMetaData_field
     (JObject
           [(''1. Information'', JString ''Daily Prices''), (''2. Symbol'', JString ''MSFT''),
            (''3. Last Refreshed'', JString ''2023-09-08''), (''4. Interval'', JString ''Daily''),
            (''5. Output Size'', JString ''Compact''), (''6. Time Zone'', JString ''US/Eastern'')]) md
   = Inr (scenario_A_MetaData md)"
  by (simp add: decode_struct_def TimeSeriesMetaData_field_def field_eq_def decode_string_def
      scenario_A_MetaData_def upper_def)

lemma scenario_A_entry_decoded:
  "decode_struct OHLCV_field
     (JObject [(''1. open'', JString ''330.00''), (''2. high'', JString ''335.00''),
                (''3. low'', JString ''329.00''), (''4. close'', JString ''334.00''),
                (''5. volume'', JString ''1000000'')]) zero_OHLCV
   = Inr (scenario_A_entry\<lparr>Timestamp := zero_Time\<rparr>)"
  by (simp add: decode_struct_def OHLCV_field_def field_eq_def decode_float64_string_def
      decode_int_string_def quoted_number_def isDigit_def upper_def
      ParseFloat_330 ParseFloat_335 ParseFloat_329 ParseFloat_334 ParseInt_1000000
      scenario_A_entry_def zero_OHLCV_def)

lemma scenario_A_decoded:
  assumes "sorts Slice by_Timestamp"
  shows "TimeSeriesDaily_UnmarshalJSON Slice ts scenario_A
         = Ok \<lparr>MetaData = scenario_A_MetaData (MetaData ts), TimeSeries = [scenario_A_entry]\<rparr>"
  by (simp add: TimeSeriesDaily_UnmarshalJSON_def series_UnmarshalJSON_def scenario_A_def
      aux_field_def field_eq_def upper_def scenario_A_MetaData_decoded scenario_A_entry_decoded
      and_then_def Parse_date_0908 sorts_single [OF assms] scenario_A_entry_def)

text \<open>
  Claim C9. Decoding the daily payload of scenario A succeeds, whatever the receiver held,
  and leaves a sequence of exactly one entry, with the timestamp 2023-09-08T00:00:00, the
  opening price 330.00 and the volume 1000000.
\<close>

theorem scenario_A_decodes:
  "sorts Slice by_Timestamp \<Longrightarrow>
   TimeSeriesDaily_UnmarshalJSON Slice ts scenario_A
   = Ok \<lparr>MetaData = scenario_A_MetaData (MetaData ts),
         TimeSeries =
           [\<lparr>Timestamp = \<lparr>Year = 2023, Month = 9, Day = 8, Hour = 0, Minute = 0, Second = 0,
                            Nanosecond = 0\<rparr>,
             Open = Finite 330, High = Finite 335, Low = Finite 329, Close = Finite 334,
             Volume = 1000000\<rparr>]\<rparr>"
  by (simp add: scenario_A_decoded scenario_A_entry_def date_time_def)

theorem scenario_A_decodes_witness:
  "sorts SliceStable (by_Timestamp :: OHLCV \<Rightarrow> OHLCV \<Rightarrow> bool) \<and>
   TimeSeriesDaily_UnmarshalJSON SliceStable fresh_TimeSeries scenario_A
   = Ok \<lparr>MetaData = scenario_A_MetaData zero_TimeSeriesMetaData,
         TimeSeries =
           [\<lparr>Timestamp = \<lparr>Year = 2023, Month = 9, Day = 8, Hour = 0, Minute = 0, Second = 0,
                            Nanosecond = 0\<rparr>,
             Open = Finite 330, High = Finite 335, Low = Finite 329, Close = Finite 334,
             Volume = 1000000\<rparr>]\<rparr>"
proof -
  note s = sorts_SliceStable [where ?'a = unit]
  show ?thesis
    using s scenario_A_decodes [OF s, of fresh_TimeSeries]
    by (simp add: fresh_TimeSeries_def)
qed

subsection \<open>The numeric sub-fields of the crypto series\<close>



















subsection \<open>The metadata extractors\<close>

lemma assert_string_Some:
  "assert_string (Some v) = (if is_JString v then Ok (case v of JString s \<Rightarrow> s | _ \<Rightarrow> [])
                             else Panic TypeAssertion)"
  by (cases v) (simp_all add: assert_string_def is_JString_def)

lemma assert_float64_Some:
  "assert_float64 (Some v) = (if is_JNumber v then Ok (case v of JNumber n \<Rightarrow> Finite n | _ \<Rightarrow> NaN)
                              else Panic TypeAssertion)"
  by (cases v) (simp_all add: assert_float64_def is_JNumber_def)

lemma extractMetaData_range_unknown:
  "k \<notin> set extractMetaData_keys \<Longrightarrow>
   extractMetaData_range ((k, v) # rawData) md = extractMetaData_range rawData md"
  by (simp add: extractMetaData_keys_def)

lemma extractMetaData_range_filter:
  "extractMetaData_range (filter (\<lambda>kv. fst kv \<in> set extractMetaData_keys) rawData) md
   = extractMetaData_range rawData md"
proof (induction rawData arbitrary: md)
  case Nil
  then show ?case by simp
next
  case (Cons x rawData)
  obtain k v where x: "x = (k, v)" by (cases x) auto
  show ?case
  proof (cases "k \<in> set extractMetaData_keys")
    case True
    then show ?thesis unfolding x by (simp add: Cons.IH)
  next
    case False
    then show ?thesis unfolding x
      by (simp add: extractMetaData_range_unknown Cons.IH del: extractMetaData_range.simps)
  qed
qed

lemma extractMetaData_range_accepts:
  "list_all extractMetaData_accepts rawData \<Longrightarrow> \<exists>md'. extractMetaData_range rawData md = Ok md'"
proof (induction rawData arbitrary: md)
  case Nil
  then show ?case by simp
next
  case (Cons x rawData)
  obtain k v where x: "x = (k, v)" by (cases x) auto
  have a: "extractMetaData_accepts (k, v)" and r: "list_all extractMetaData_accepts rawData"
    using Cons.prems x by simp_all
  show ?case
    unfolding x extractMetaData_range.simps
    using a Cons.IH [OF r]
    by (simp add: extractMetaData_accepts_def extractMetaData_keys_def assert_string_Some
        assert_float64_Some and_then_Ok split: if_splits)
qed

lemma extractMetaData_range_rejects:
  "\<not> list_all extractMetaData_accepts rawData \<Longrightarrow>
   extractMetaData_range rawData md = Panic TypeAssertion"
proof (induction rawData arbitrary: md)
  case Nil
  then show ?case by simp
next
  case (Cons x rawData)
  obtain k v where x: "x = (k, v)" by (cases x) auto
  show ?case
  proof (cases "extractMetaData_accepts (k, v)")
    case False
    then show ?thesis
      unfolding x extractMetaData_range.simps
      by (auto simp: extractMetaData_accepts_def extractMetaData_keys_def assert_string_Some
          assert_float64_Some and_then_Panic split: if_splits)
  next
    case True
    then have r: "\<not> list_all extractMetaData_accepts rawData"
      using Cons.prems x by simp
    show ?thesis
      unfolding x extractMetaData_range.simps
      using True Cons.IH [OF r]
      by (simp add: extractMetaData_accepts_def extractMetaData_keys_def assert_string_Some
          assert_float64_Some and_then_Ok split: if_splits)
  qed
qed

lemma extractCryptoMetaData_range_unknown:
  "k \<notin> set extractCryptoMetaData_keys \<Longrightarrow>
   extractCryptoMetaData_range ((k, v) # rawData) md = extractCryptoMetaData_range rawData md"
  by (simp add: extractCryptoMetaData_keys_def)

lemma extractCryptoMetaData_range_filter:
  "extractCryptoMetaData_range (filter (\<lambda>kv. fst kv \<in> set extractCryptoMetaData_keys) rawData) md
   = extractCryptoMetaData_range rawData md"
proof (induction rawData arbitrary: md)
  case Nil
  then show ?case by simp
next
  case (Cons x rawData)
  obtain k v where x: "x = (k, v)" by (cases x) auto
  show ?case
  proof (cases "k \<in> set extractCryptoMetaData_keys")
    case True
    then show ?thesis unfolding x by (simp add: Cons.IH)
  next
    case False
    then show ?thesis unfolding x
      by (simp add: extractCryptoMetaData_range_unknown Cons.IH
          del: extractCryptoMetaData_range.simps)
  qed
qed

lemma extractCryptoMetaData_range_accepts:
  "list_all extractCryptoMetaData_accepts rawData \<Longrightarrow>
   \<exists>md'. extractCryptoMetaData_range rawData md = Ok md'"
proof (induction rawData arbitrary: md)
  case Nil
  then show ?case by simp
next
  case (Cons x rawData)
  obtain k v where x: "x = (k, v)" by (cases x) auto
  have a: "extractCryptoMetaData_accepts (k, v)"
    and r: "list_all extractCryptoMetaData_accepts rawData"
    using Cons.prems x by simp_all
  show ?case
    unfolding x extractCryptoMetaData_range.simps
    using a Cons.IH [OF r]
    by (simp add: extractCryptoMetaData_accepts_def extractCryptoMetaData_keys_def
        assert_string_Some and_then_Ok split: if_splits)
qed

lemma extractCryptoMetaData_range_rejects:
  "\<not> list_all extractCryptoMetaData_accepts rawData \<Longrightarrow>
   extractCryptoMetaData_range rawData md = Panic TypeAssertion"
proof (induction rawData arbitrary: md)
  case Nil
  then show ?case by simp
next
  case (Cons x rawData)
  obtain k v where x: "x = (k, v)" by (cases x) auto
  show ?case
  proof (cases "extractCryptoMetaData_accepts (k, v)")
    case False
    then show ?thesis
      unfolding x extractCryptoMetaData_range.simps
      by (auto simp: extractCryptoMetaData_accepts_def extractCryptoMetaData_keys_def
          assert_string_Some and_then_Panic split: if_splits)
  next
    case True
    then have r: "\<not> list_all extractCryptoMetaData_accepts rawData"
      using Cons.prems x by simp
    show ?thesis
      unfolding x extractCryptoMetaData_range.simps
      using True Cons.IH [OF r]
      by (simp add: extractCryptoMetaData_accepts_def extractCryptoMetaData_keys_def
          assert_string_Some and_then_Ok split: if_splits)
  qed
qed

lemma indicator_metadata_panics:
  assumes "Unmarshal_raw data = Inr raw"
      and "map_of raw ''Meta Data'' = Some (JObject rawData)"
      and "\<not> list_all extractMetaData_accepts rawData"
  shows "UnmarshalIndicatorJSON i data indicatorName = Panic TypeAssertion"
  unfolding UnmarshalIndicatorJSON_def
  by (simp add: assms(1,2) extractMetaData_def extractMetaData_range_rejects [OF assms(3)]
      and_then_Panic)

lemma crypto_metadata_panics:
  assumes "Unmarshal_raw data = Inr raw"
      and "map_of raw ''Meta Data'' = Some (JObject rawData)"
      and "\<not> list_all extractCryptoMetaData_accepts rawData"
  shows "UnmarshalCryptoJSON c data = Panic TypeAssertion"
  unfolding UnmarshalCryptoJSON_def
  by (simp add: assms(1,2) extractCryptoMetaData_def
      extractCryptoMetaData_range_rejects [OF assms(3)] and_then_Panic)

text \<open>
  Claim C4, as amended. Both metadata extractors pass over the keys their \<^verbatim>\<open>switch\<close> does
  not name: taking those members away changes nothing. Where a key they name holds a value
  of another type than the one asserted, the extractor does not return a type error (it
  has no error result): the unchecked assertion panics, and so does the decode that
  called it. Where every named key holds its type, the extractor returns a struct.
\<close>

theorem metadata_extractors_skip_unknown_keys_and_panic_on_type:
  "extractMetaData (filter (\<lambda>kv. fst kv \<in> set extractMetaData_keys) rawData)
     = extractMetaData rawData \<and>
   (list_all extractMetaData_accepts rawData \<longrightarrow> (\<exists>md. extractMetaData rawData = Ok md)) \<and>
   (\<not> list_all extractMetaData_accepts rawData \<longrightarrow>
      extractMetaData rawData = Panic TypeAssertion) \<and>
   (Unmarshal_raw da = Inr rawa \<longrightarrow> map_of rawa ''Meta Data'' = Some (JObject rawData) \<longrightarrow>
      \<not> list_all extractMetaData_accepts rawData \<longrightarrow>
      UnmarshalIndicatorJSON i da indicatorName = Panic TypeAssertion) \<and>
   extractCryptoMetaData (filter (\<lambda>kv. fst kv \<in> set extractCryptoMetaData_keys) cryptoData)
     = extractCryptoMetaData cryptoData \<and>
   (list_all extractCryptoMetaData_accepts cryptoData \<longrightarrow>
      (\<exists>md. extractCryptoMetaData cryptoData = Ok md)) \<and>
   (\<not> list_all extractCryptoMetaData_accepts cryptoData \<longrightarrow>
      extractCryptoMetaData cryptoData = Panic TypeAssertion) \<and>
   (Unmarshal_raw db = Inr rawb \<longrightarrow> map_of rawb ''Meta Data'' = Some (JObject cryptoData) \<longrightarrow>
      \<not> list_all extractCryptoMetaData_accepts cryptoData \<longrightarrow>
      UnmarshalCryptoJSON c db = Panic TypeAssertion)"
  using extractMetaData_range_accepts [of rawData zero_TimeSeriesMetaData]
    extractCryptoMetaData_range_accepts [of cryptoData zero_CryptoMetaData]
    indicator_metadata_panics [of da rawa rawData i indicatorName]
    crypto_metadata_panics [of db rawb cryptoData c]
  by (simp add: extractMetaData_def extractCryptoMetaData_def extractMetaData_range_filter
      extractCryptoMetaData_range_filter extractMetaData_range_rejects
      extractCryptoMetaData_range_rejects)

text \<open>
  A number under \<^verbatim>\<open>1: Symbol\<close>: the indicator decode panics; it returns no error.
\<close>

theorem metadata_type_mismatch_counterexample:
  "UnmarshalIndicatorJSON fresh_IndicatorResponse bad_symbol ''SMA'' = Panic TypeAssertion"
  by (simp add: UnmarshalIndicatorJSON_def bad_symbol_def Unmarshal_raw_def go_map_def
      in_float64_def float64_overflow_def extractMetaData_def assert_string_def and_then_def)

lemma bad_symbol_raw:
  "Unmarshal_raw bad_symbol = Inr [(''Meta Data'', JObject [(''1: Symbol'', JNumber 1)])]"
  by (simp add: bad_symbol_def Unmarshal_raw_def go_map_def in_float64_def float64_overflow_def)

lemma bad_information_raw:
  "Unmarshal_raw bad_information = Inr [(''Meta Data'', JObject [(''1. Information'', JNumber 1)])]"
  by (simp add: bad_information_def Unmarshal_raw_def go_map_def in_float64_def
      float64_overflow_def)

theorem metadata_extractors_skip_unknown_keys_and_panic_on_type_witness:
  "extractMetaData [(''1: Symbol'', JString ''MSFT'')]
     = extractMetaData [(''9: Extra'', JBool True), (''1: Symbol'', JString ''MSFT'')] \<and>
   list_all extractMetaData_accepts [(''9: Extra'', JBool True), (''1: Symbol'', JString ''MSFT'')] \<and>
   (\<exists>md. extractMetaData [(''9: Extra'', JBool True), (''1: Symbol'', JString ''MSFT'')] = Ok md) \<and>
   \<not> list_all extractMetaData_accepts [(''1: Symbol'', JNumber 1)] \<and>
   extractMetaData [(''1: Symbol'', JNumber 1)] = Panic TypeAssertion \<and>
   UnmarshalIndicatorJSON fresh_IndicatorResponse bad_symbol ''SMA'' = Panic TypeAssertion \<and>
   extractCryptoMetaData [(''1. Information'', JString ''Daily'')]
     = extractCryptoMetaData [(''8. Extra'', JNull), (''1. Information'', JString ''Daily'')] \<and>
   list_all extractCryptoMetaData_accepts
     [(''8. Extra'', JNull), (''1. Information'', JString ''Daily'')] \<and>
   (\<exists>md. extractCryptoMetaData [(''8. Extra'', JNull), (''1. Information'', JString ''Daily'')]
      = Ok md) \<and>
   \<not> list_all extractCryptoMetaData_accepts [(''1. Information'', JNumber 1)] \<and>
   extractCryptoMetaData [(''1. Information'', JNumber 1)] = Panic TypeAssertion \<and>
   UnmarshalCryptoJSON fresh_CryptoSeriesResponse bad_information = Panic TypeAssertion"
proof -
  have a: "list_all extractMetaData_accepts
             [(''9: Extra'', JBool True), (''1: Symbol'', JString ''MSFT'')]"
    by (simp add: extractMetaData_accepts_def extractMetaData_keys_def is_JString_def)
  have b: "\<not> list_all extractMetaData_accepts [(''1: Symbol'', JNumber 1)]"
    by (simp add: extractMetaData_accepts_def extractMetaData_keys_def is_JString_def)
  have c: "list_all extractCryptoMetaData_accepts
             [(''8. Extra'', JNull), (''1. Information'', JString ''Daily'')]"
    by (simp add: extractCryptoMetaData_accepts_def extractCryptoMetaData_keys_def
        is_JString_def)
  have d: "\<not> list_all extractCryptoMetaData_accepts [(''1. Information'', JNumber 1)]"
    by (simp add: extractCryptoMetaData_accepts_def extractCryptoMetaData_keys_def
        is_JString_def)
  have f: "filter (\<lambda>kv. fst kv \<in> set extractMetaData_keys)
             [(''9: Extra'', JBool True), (''1: Symbol'', JString ''MSFT'')]
           = [(''1: Symbol'', JString ''MSFT'')]"
    by (simp add: extractMetaData_keys_def)
  have g: "filter (\<lambda>kv. fst kv \<in> set extractCryptoMetaData_keys)
             [(''8. Extra'', JNull), (''1. Information'', JString ''Daily'')]
           = [(''1. Information'', JString ''Daily'')]"
    by (simp add: extractCryptoMetaData_keys_def)
  note w1 = metadata_extractors_skip_unknown_keys_and_panic_on_type
    [where rawData = "[(''9: Extra'', JBool True), (''1: Symbol'', JString ''MSFT'')]"
       and cryptoData = "[(''8. Extra'', JNull), (''1. Information'', JString ''Daily'')]",
     unfolded f g]
  note w2 = metadata_extractors_skip_unknown_keys_and_panic_on_type
    [where rawData = "[(''1: Symbol'', JNumber 1)]"
       and cryptoData = "[(''1. Information'', JNumber 1)]"
       and da = bad_symbol and rawa = "[(''Meta Data'', JObject [(''1: Symbol'', JNumber 1)])]"
       and db = bad_information
       and rawb = "[(''Meta Data'', JObject [(''1. Information'', JNumber 1)])]"
       and i = fresh_IndicatorResponse and indicatorName = "''SMA''"
       and c = fresh_CryptoSeriesResponse]
  show ?thesis
    using a b c d w1 w2 bad_symbol_raw bad_information_raw by simp
qed

subsection \<open>The sub-fields of an indicator\<close>

lemma update_fresh: "k \<notin> fst ` set m \<Longrightarrow> AList.update k v m = m @ [(k, v)]"
  by (induction m) auto

lemma update_subset: "set (AList.update k v m) \<subseteq> insert (k, v) (set m)"
  by (induction m) auto

lemma foldl_update_distinct:
  "distinct (map fst m) \<Longrightarrow>
   distinct (map fst (foldl (\<lambda>m kv. AList.update (fst kv) (snd kv) m) m kvs))"
  by (induction kvs arbitrary: m) (simp_all add: distinct_update)

lemma foldl_update_subset:
  "set (foldl (\<lambda>m kv. AList.update (fst kv) (snd kv) m) m kvs) \<subseteq> set m \<union> set kvs"
proof (induction kvs arbitrary: m)
  case Nil
  then show ?case by simp
next
  case (Cons kv kvs)
  have "set (foldl (\<lambda>m kv. AList.update (fst kv) (snd kv) m)
               (AList.update (fst kv) (snd kv) m) kvs)
        \<subseteq> set (AList.update (fst kv) (snd kv) m) \<union> set kvs"
    by (rule Cons.IH)
  also have "\<dots> \<subseteq> insert (fst kv, snd kv) (set m) \<union> set kvs"
    using update_subset [of "fst kv" "snd kv" m] by blast
  finally show ?case by auto
qed

lemma go_map_distinct: "distinct (map fst (go_map kvs))"
  unfolding go_map_def by (rule foldl_update_distinct) simp

lemma go_map_subset: "set (go_map kvs) \<subseteq> set kvs"
  unfolding go_map_def using foldl_update_subset [of "[]" kvs] by simp

lemma to_interface_JObject:
  assumes "to_interface v = JObject f"
  shows "distinct (map fst f) \<and> (\<forall>kw\<in>set f. \<exists>w. snd kw = to_interface w)"
proof (cases v)
  case (JObject kvs)
  then have f: "f = go_map (map (map_prod id to_interface) kvs)"
    using assms by simp
  have "set f \<subseteq> set (map (map_prod id to_interface) kvs)"
    unfolding f by (rule go_map_subset)
  then have "\<forall>kw\<in>set f. \<exists>w. snd kw = to_interface w" by fastforce
  then show ?thesis unfolding f using go_map_distinct by blast
qed (use assms in simp_all)

lemma Unmarshal_raw_values:
  assumes "Unmarshal_raw data = Inr raw"
  shows "\<forall>kw\<in>set raw. \<exists>w. snd kw = to_interface w"
proof (cases data)
  case None
  then show ?thesis using assms by (simp add: Unmarshal_raw_def)
next
  case (Some v)
  show ?thesis
  proof (cases v)
    case (JObject kvs)
    then have r: "raw = go_map (map (map_prod id to_interface) kvs)"
      using assms Some by (simp add: Unmarshal_raw_def split: if_splits)
    have "set raw \<subseteq> set (map (map_prod id to_interface) kvs)"
      unfolding r by (rule go_map_subset)
    then show ?thesis by fastforce
  qed (use assms Some in \<open>simp_all add: Unmarshal_raw_def\<close>)
qed

lemma raw_object_maps:
  assumes "Unmarshal_raw data = Inr raw" and "map_of raw key = Some (JObject tsData)"
  shows "\<forall>kv\<in>set tsData. \<forall>subs. snd kv = JObject subs \<longrightarrow> distinct (map fst subs)"
proof -
  have "(key, JObject tsData) \<in> set raw" using assms(2) by (rule map_of_SomeD)
  then obtain w where "JObject tsData = to_interface w"
    using Unmarshal_raw_values [OF assms(1)] by fastforce
  then have t: "\<forall>kw\<in>set tsData. \<exists>w. snd kw = to_interface w"
    using to_interface_JObject [of w tsData] by simp
  show ?thesis
  proof (intro ballI allI impI)
    fix kv subs assume "kv \<in> set tsData" and f: "snd kv = JObject subs"
    then obtain w' where "snd kv = to_interface w'" using t by blast
    then show "distinct (map fst subs)"
      using to_interface_JObject [of w' subs] f by simp
  qed
qed

lemma indicator_values_keys:
  "indicator_values subs acc = Inr vm \<Longrightarrow> distinct (map fst subs) \<Longrightarrow>
   fst ` set acc \<inter> fst ` set subs = {} \<Longrightarrow>
   map fst vm = map fst acc @ map fst (filter (\<lambda>f. is_JString (snd f)) subs)"
proof (induction subs arbitrary: acc)
  case Nil
  then show ?case by simp
next
  case (Cons x subs)
  obtain name rawValue where x: "x = (name, rawValue)" by (cases x) auto
  have d: "distinct (map fst subs)" and n: "name \<notin> fst ` set subs"
    and na: "name \<notin> fst ` set acc" and dj: "fst ` set acc \<inter> fst ` set subs = {}"
    using Cons.prems(2,3) x by auto
  show ?case
  proof (cases "is_JString rawValue")
    case False
    then have "indicator_values subs acc = Inr vm"
      using Cons.prems(1) x by (cases rawValue) (simp_all add: is_JString_def)
    from Cons.IH [OF this d dj] show ?thesis using False x by simp
  next
    case True
    then obtain s where s: "rawValue = JString s" by (cases rawValue) (simp_all add: is_JString_def)
    obtain floatValue where p: "ParseFloat s = (floatValue, None)"
      and r: "indicator_values subs (AList.update name floatValue acc) = Inr vm"
      using Cons.prems(1) x s by (cases "ParseFloat s") (auto split: option.splits)
    have u: "AList.update name floatValue acc = acc @ [(name, floatValue)]"
      using na by (rule update_fresh)
    have "fst ` set (acc @ [(name, floatValue)]) \<inter> fst ` set subs = {}"
      using dj n by auto
    from Cons.IH [OF r [unfolded u] d this] show ?thesis using True x by simp
  qed
qed

lemma indicator_entries_captured:
  "indicator_entries tsData ivs = Ok out \<Longrightarrow>
   \<forall>kv\<in>set tsData. \<forall>subs. snd kv = JObject subs \<longrightarrow> distinct (map fst subs) \<Longrightarrow>
   \<exists>new. out = ivs @ new \<and> list_all2 captured tsData new"
proof (induction tsData arbitrary: ivs)
  case Nil
  then show ?case by simp
next
  case (Cons x tsData)
  obtain k v where x: "x = (k, v)" by (cases x) auto
  obtain timestamp where t: "Parse_minute k = Some timestamp"
    using Cons.prems(1) x by (cases "Parse_minute k") simp_all
  obtain indicatorData where v: "v = JObject indicatorData"
    using Cons.prems(1) x t by (cases v) simp_all
  obtain valueMap where m: "indicator_values indicatorData [] = Inr valueMap"
    and r: "indicator_entries tsData (ivs @ [\<lparr>IV_Timestamp = timestamp, Values = valueMap\<rparr>]) = Ok out"
    using Cons.prems(1) x t v by (cases "indicator_values indicatorData []") simp_all
  have "distinct (map fst indicatorData)" using Cons.prems(2) x v by simp
  then have keys: "map fst valueMap = map fst (filter (\<lambda>f. is_JString (snd f)) indicatorData)"
    using indicator_values_keys [OF m] by simp
  have rest: "\<forall>kv\<in>set tsData. \<forall>subs. snd kv = JObject subs \<longrightarrow> distinct (map fst subs)"
    using Cons.prems(2) by simp
  from Cons.IH [OF r rest] obtain new where
    new: "out = (ivs @ [\<lparr>IV_Timestamp = timestamp, Values = valueMap\<rparr>]) @ new"
         "list_all2 captured tsData new"
    by blast
  have "captured x \<lparr>IV_Timestamp = timestamp, Values = valueMap\<rparr>"
    using t v keys x by (simp add: captured_def)
  then show ?case
    using new by (intro exI [of _ "\<lparr>IV_Timestamp = timestamp, Values = valueMap\<rparr> # new"]) simp
qed

lemma indicator_captured:
  assumes "Unmarshal_raw data = Inr raw"
      and "map_of raw (expectedKey indicatorName) = Some (JObject tsData)"
      and "UnmarshalIndicatorJSON i data indicatorName = Ok i'"
  shows "\<exists>new. list_all2 captured tsData new \<and>
           IndicatorValues i' = SliceStable by_IV_Timestamp (IndicatorValues i @ new)"
proof -
  obtain md out where out: "indicator_entries tsData (IndicatorValues i) = Ok out"
    and i': "i' = \<lparr>I_MetaData = md, IndicatorValues = SliceStable by_IV_Timestamp out\<rparr>"
    using assms unfolding UnmarshalIndicatorJSON_def
    by (auto simp: and_then_def split: result.splits)
  obtain new where "out = IndicatorValues i @ new" "list_all2 captured tsData new"
    using indicator_entries_captured [OF out raw_object_maps [OF assms(1,2)]] by blast
  then show ?thesis using i' by auto
qed

lemma captured_length:
  assumes "captured kv e" and "snd kv = JObject subs"
      and "list_all (\<lambda>f. is_JString (snd f)) subs"
  shows "length (Values e) = length subs"
proof -
  have "filter (\<lambda>f. is_JString (snd f)) subs = subs"
    using assms(3) by (simp add: list_all_iff)
  then have "map fst (Values e) = map fst subs"
    using assms(1,2) by (simp add: captured_def)
  then have "length (map fst (Values e)) = length (map fst subs)" by simp
  then show ?thesis by simp
qed

lemma indicator_counts:
  assumes "list_all2 captured tsData new"
      and "\<forall>kv\<in>set tsData. \<forall>subs. snd kv = JObject subs \<longrightarrow>
             length subs = n \<and> list_all (\<lambda>f. is_JString (snd f)) subs"
  shows "\<forall>e\<in>set new. length (Values e) = n"
proof
  fix e assume "e \<in> set new"
  then obtain j where j: "j < length new" "e = new ! j"
    by (auto simp: in_set_conv_nth)
  have l: "length tsData = length new" using assms(1) by (rule list_all2_lengthD)
  define kv where "kv = tsData ! j"
  have kv: "kv \<in> set tsData" using j(1) l by (simp add: kv_def)
  have c: "captured kv e"
    using list_all2_nthD2 [OF assms(1) j(1)] j(2) by (simp add: kv_def)
  obtain subs where s: "snd kv = JObject subs"
    using c by (cases "snd kv") (simp_all add: captured_def)
  then have "length subs = n" "list_all (\<lambda>f. is_JString (snd f)) subs"
    using assms(2) kv by blast+
  then show "length (Values e) = n" using captured_length [OF c s] by simp
qed

text \<open>
  Claim C8, as amended. The indicator decoder has no schema: for each timestamp of the
  value block it makes one entry, whose \<^verbatim>\<open>Values\<close> has a key for every sub-field of that
  timestamp that holds a JSON string, and for no other. It passes over a sub-field whose
  value is not a string. So, decoding into a fresh receiver a payload whose objects each
  have \<open>n\<close> sub-fields, all strings, every entry has exactly \<open>n\<close> values, and there is
  one entry for each timestamp.
\<close>

theorem indicator_captures_string_sub_fields:
  assumes "Unmarshal_raw data = Inr raw"
      and "map_of raw (expectedKey indicatorName) = Some (JObject tsData)"
      and "UnmarshalIndicatorJSON i data indicatorName = Ok i'"
  shows "(\<exists>new. list_all2 captured tsData new \<and>
            IndicatorValues i' = SliceStable by_IV_Timestamp (IndicatorValues i @ new)) \<and>
         (IndicatorValues i = [] \<longrightarrow>
            (\<forall>kv\<in>set tsData. \<forall>subs. snd kv = JObject subs \<longrightarrow>
               length subs = n \<and> list_all (\<lambda>f. is_JString (snd f)) subs) \<longrightarrow>
            length (IndicatorValues i') = length tsData \<and>
            (\<forall>e\<in>set (IndicatorValues i'). length (Values e) = n))"
proof -
  obtain new where new: "list_all2 captured tsData new"
    and i': "IndicatorValues i' = SliceStable by_IV_Timestamp (IndicatorValues i @ new)"
    using indicator_captured [OF assms] by blast
  { assume e: "IndicatorValues i = []"
      and a: "\<forall>kv\<in>set tsData. \<forall>subs. snd kv = JObject subs \<longrightarrow>
               length subs = n \<and> list_all (\<lambda>f. is_JString (snd f)) subs"
    have s: "IndicatorValues i' = sort_key (\<lambda>a. time_key (IV_Timestamp a)) new"
      using i' e by (simp add: SliceStable_by_IV_Timestamp)
    have "length (IndicatorValues i') = length tsData"
      using new s by (simp add: list_all2_lengthD)
    moreover have "\<forall>e\<in>set (IndicatorValues i'). length (Values e) = n"
      using indicator_counts [OF new a] s by simp
    ultimately have "length (IndicatorValues i') = length tsData \<and>
            (\<forall>e\<in>set (IndicatorValues i'). length (Values e) = n)" by blast }
  then show ?thesis using new i' by blast
qed

text \<open>
  One sub-field \<^verbatim>\<open>SMA\<close> that holds the number 330: the decode succeeds and the entry
  has no value.
\<close>

theorem indicator_number_counterexample:
  "UnmarshalIndicatorJSON fresh_IndicatorResponse indicator_number ''SMA''
   = Ok \<lparr>I_MetaData = zero_TimeSeriesMetaData,
         IndicatorValues = [\<lparr>IV_Timestamp = date_time 2023 9 8 16 0, Values = []\<rparr>]\<rparr>"
  by (simp add: UnmarshalIndicatorJSON_def indicator_number_def fresh_IndicatorResponse_def
      decode_defs in_float64_def float64_overflow_def Parse_minute_1600)

lemma indicator_BBANDS_decoded:
  "UnmarshalIndicatorJSON fresh_IndicatorResponse indicator_BBANDS ''BBANDS''
   = Ok indicator_BBANDS_result"
  by (simp add: UnmarshalIndicatorJSON_def indicator_BBANDS_def fresh_IndicatorResponse_def
      indicator_BBANDS_result_def decode_defs Parse_minute_1600
      ParseFloat_330 ParseFloat_329 ParseFloat_335)

lemma indicator_BBANDS_raw:
  "Unmarshal_raw indicator_BBANDS =
   Inr [(''Technical Analysis: BBANDS'', JObject
       [(''2023-09-08 16:00'', JObject
           [(''Real Upper Band'', JString ''335.00''), (''Real Middle Band'', JString ''330.00''),
            (''Real Lower Band'', JString ''329.00'')])])]"
  by (simp add: indicator_BBANDS_def Unmarshal_raw_def go_map_def)

theorem indicator_captures_string_sub_fields_witness:
  "UnmarshalIndicatorJSON fresh_IndicatorResponse indicator_BBANDS ''BBANDS''
     = Ok indicator_BBANDS_result \<and>
   length (IndicatorValues indicator_BBANDS_result) = 1 \<and>
   (\<exists>new. list_all2 captured
      [(''2023-09-08 16:00'', JObject
           [(''Real Upper Band'', JString ''335.00''), (''Real Middle Band'', JString ''330.00''),
            (''Real Lower Band'', JString ''329.00'')])] new \<and>
      IndicatorValues indicator_BBANDS_result
        = SliceStable by_IV_Timestamp (IndicatorValues fresh_IndicatorResponse @ new)) \<and>
   list_all (\<lambda>e. length (Values e) = 3) (IndicatorValues indicator_BBANDS_result)"
proof -
  have k: "map_of [(''Technical Analysis: BBANDS'', JObject
       [(''2023-09-08 16:00'', JObject
           [(''Real Upper Band'', JString ''335.00''), (''Real Middle Band'', JString ''330.00''),
            (''Real Lower Band'', JString ''329.00'')])])] (expectedKey ''BBANDS'')
     = Some (JObject
       [(''2023-09-08 16:00'', JObject
           [(''Real Upper Band'', JString ''335.00''), (''Real Middle Band'', JString ''330.00''),
            (''Real Lower Band'', JString ''329.00'')])])"
    by (simp add: expectedKey_def)
  note w = indicator_captures_string_sub_fields
    [OF indicator_BBANDS_raw k indicator_BBANDS_decoded, where n = 3]
  have f: "IndicatorValues fresh_IndicatorResponse = []"
    by (simp add: fresh_IndicatorResponse_def)
  have a: "\<forall>kv\<in>set [(''2023-09-08 16:00'', JObject
           [(''Real Upper Band'', JString ''335.00''), (''Real Middle Band'', JString ''330.00''),
            (''Real Lower Band'', JString ''329.00'')])].
         \<forall>subs. snd kv = JObject subs \<longrightarrow>
           length subs = 3 \<and> list_all (\<lambda>f. is_JString (snd f)) subs"
    by (simp add: is_JString_def)
  note c = mp [OF mp [OF conjunct2 [OF w] f] a]
  show ?thesis
    using conjunct1 [OF w] c indicator_BBANDS_decoded
    by (simp add: list_all_iff)
qed

subsection \<open>The fields of a quote\<close>


























end
